theory Spec2Isabelle
  imports Complex_Main
begin

section \<open>The routing decision engine of the orchestrator service\<close>

text \<open>
  A shallow embedding of four Python modules of \<^verbatim>\<open>services/orchestrator/app\<close>:
  \<^verbatim>\<open>model_registry.py\<close> (the Model Directory), \<^verbatim>\<open>routing_policies.py\<close> (the Policy
  Store and its budget ledger), \<^verbatim>\<open>intelligent_router.py\<close> (the Router) and
  \<^verbatim>\<open>azure_openai_client.py\<close> (the Invocation Client).

  Conventions of the embedding.
  \<^item> A dataclass is a record with the fields of the source. A leading underscore of a
    Python method name is dropped (\<^verbatim>\<open>_validate_model_capabilities\<close> is
    \<open>validate_model_capabilities\<close>); a field whose name two dataclasses share carries the
    name of its class as a prefix in one of them.
  \<^item> Python \<^verbatim>\<open>float\<close> values (costs, budgets, scores) are real numbers: rounding is not
    modelled; comparisons and products are the ones the source writes.
  \<^item> Python \<^verbatim>\<open>int\<close> is \<open>int\<close>, \<^verbatim>\<open>str\<close> is \<open>string\<close>, \<^verbatim>\<open>Optional[T]\<close> is \<open>T option\<close>, a
    \<^verbatim>\<open>dict\<close> is a map.
  \<^item> Python truthiness is written out: an optional string is truthy when it is set and
    not empty, an optional number when it is set and not zero, a list when it is not
    empty.
  \<^item> \<^verbatim>\<open>datetime.now()\<close> is an argument of the function that reads it.
  \<^item> An exception is a value of the type \<open>exn\<close>, and a function that can raise returns
    \<open>exn + 'a\<close>, with \<open>Inl\<close> for the exception. The only operation of the router that
    can raise on values of the declared types is the product of an \<^verbatim>\<open>int\<close> and a
    \<^verbatim>\<open>float\<close>, which converts the \<^verbatim>\<open>int\<close> first.
\<close>

subsection \<open>Python truthiness\<close>

definition truthy_str :: "string option \<Rightarrow> bool" where
  "truthy_str s = (case s of None \<Rightarrow> False | Some v \<Rightarrow> v \<noteq> [])"

text \<open>\<^verbatim>\<open>a or b\<close> on an optional number \<^verbatim>\<open>a\<close> and a number \<^verbatim>\<open>b\<close>.\<close>

definition or_float :: "real option \<Rightarrow> real \<Rightarrow> real" where
  "or_float a b = (case a of None \<Rightarrow> b | Some v \<Rightarrow> if v \<noteq> 0 then v else b)"

definition or_int :: "int option \<Rightarrow> int \<Rightarrow> int" where
  "or_int a b = (case a of None \<Rightarrow> b | Some v \<Rightarrow> if v \<noteq> 0 then v else b)"

subsection \<open>Exceptions and the conversion of integers\<close>

text \<open>
  The exceptions of the four modules: the \<^verbatim>\<open>OverflowError\<close> of an \<^verbatim>\<open>int\<close> that is too
  large to convert to a \<^verbatim>\<open>float\<close>; the two \<^verbatim>\<open>ValueError\<close>s that the client raises itself;
  the \<^verbatim>\<open>IndexError\<close> of \<^verbatim>\<open>response.choices[0]\<close> and \<^verbatim>\<open>response.data[0]\<close> on an empty list;
  the \<^verbatim>\<open>AttributeError\<close> of an attribute read on \<^verbatim>\<open>None\<close> or on a stream object; and
  whatever the backend call raises.
\<close>

datatype exn = OverflowError | ValueError string | IndexError | AttributeError | ApiError string

text \<open>
  In \<^verbatim>\<open>n * x\<close> with an \<^verbatim>\<open>int\<close> \<^verbatim>\<open>n\<close> and a \<^verbatim>\<open>float\<close> \<^verbatim>\<open>x\<close>, Python converts \<^verbatim>\<open>n\<close> to a
  \<^verbatim>\<open>float\<close> and raises \<^verbatim>\<open>OverflowError\<close> ("int too large to convert to float") when
  the nearest double would be 2^1024 or beyond, that is when the absolute value of \<^verbatim>\<open>n\<close>
  is at least 2^1024 - 2^970. The product of two floats does not raise.
\<close>

definition float_overflow_bound :: int where
  "float_overflow_bound = 2 ^ 1024 - 2 ^ 970"

definition int_to_float :: "int \<Rightarrow> exn + real" where
  "int_to_float n = (if \<bar>n\<bar> < float_overflow_bound then Inr (of_int n) else Inl OverflowError)"

subsection \<open>model\_registry.py: the data model\<close>

text \<open>
  The result of \<^verbatim>\<open>datetime.now()\<close>: its rendering by \<^verbatim>\<open>strftime("%Y-%m")\<close> and the
  instant itself.
\<close>

record datetime =
  year_month :: string
  instant :: nat

record PerformanceMetrics =
  latency :: string
  quality :: string
  context_length :: int

record RateLimits =
  requests_per_minute :: int
  tokens_per_minute :: int

record CostPerToken =
  input_cost :: real
  output_cost :: real

record ModelInfo =
  deployment_name :: string
  endpoint :: string
  api_version :: string
  capabilities :: "string list"
  performance_metrics :: PerformanceMetrics
  tags :: "string list"
  health_status :: string
  rate_limits :: RateLimits
  cost_per_token :: CostPerToken
  last_health_check :: "datetime option"
  error_count :: int
  total_requests :: int
  total_tokens :: int

record ModelRegistry =
  models :: "string \<rightharpoonup> ModelInfo"
  last_config_load :: "datetime option"

definition get_model :: "ModelRegistry \<Rightarrow> string \<Rightarrow> ModelInfo option" where
  "get_model reg name = models reg name"

text \<open>
  \<^verbatim>\<open>update_model_health\<close>: sets the three health fields of a known deployment and does
  nothing for an unknown one.
\<close>

definition update_model_health ::
  "datetime \<Rightarrow> ModelRegistry \<Rightarrow> string \<Rightarrow> string \<Rightarrow> int \<Rightarrow> ModelRegistry" where
  "update_model_health now reg name status count =
     (case models reg name of
        None \<Rightarrow> reg
      | Some m \<Rightarrow>
          reg\<lparr>models := (models reg)(name \<mapsto>
                 m\<lparr>health_status := status, last_health_check := Some now,
                   error_count := count\<rparr>)\<rparr>)"

definition record_usage :: "ModelRegistry \<Rightarrow> string \<Rightarrow> int \<Rightarrow> int \<Rightarrow> ModelRegistry" where
  "record_usage reg name request_count token_count =
     (case models reg name of
        None \<Rightarrow> reg
      | Some m \<Rightarrow>
          reg\<lparr>models := (models reg)(name \<mapsto>
                 m\<lparr>total_requests := total_requests m + request_count,
                   total_tokens := total_tokens m + token_count\<rparr>)\<rparr>)"

text \<open>
  \<^verbatim>\<open>get_model_cost_estimate\<close>: for a known deployment,
  \<^verbatim>\<open>input_tokens * model.cost_per_token.input\<close>, then
  \<^verbatim>\<open>output_tokens * model.cost_per_token.output\<close>, then their sum; 0.0 for an unknown one.
\<close>

definition get_model_cost_estimate ::
  "ModelRegistry \<Rightarrow> string \<Rightarrow> int \<Rightarrow> int \<Rightarrow> exn + real" where
  "get_model_cost_estimate reg name input_tokens output_tokens =
     (case get_model reg name of
        Some m \<Rightarrow>
          (case int_to_float input_tokens of
             Inl e \<Rightarrow> Inl e
           | Inr i \<Rightarrow>
               (case int_to_float output_tokens of
                  Inl e \<Rightarrow> Inl e
                | Inr out \<Rightarrow>
                    Inr (i * input_cost (cost_per_token m)
                         + out * output_cost (cost_per_token m))))
      | None \<Rightarrow> Inr 0)"

subsection \<open>intelligent\_router.py: latency classes\<close>

text \<open>
  \<^verbatim>\<open>latency_hierarchy.get(x, 3)\<close>: the level of one of the four class names, and 3 for
  every other string.
\<close>

definition latency_level :: "string \<Rightarrow> nat" where
  "latency_level x =
     (if x = ''very_low'' then 0
      else if x = ''low'' then 1
      else if x = ''medium'' then 2
      else if x = ''high'' then 3
      else 3)"

definition meets_latency_requirement :: "string \<Rightarrow> string \<Rightarrow> bool" where
  "meets_latency_requirement model_latency required_latency =
     (latency_level model_latency \<le> latency_level required_latency)"

definition known_latency :: "string \<Rightarrow> bool" where
  "known_latency x = (x \<in> {''very_low'', ''low'', ''medium'', ''high''})"

subsection \<open>routing\_policies.py: policies and the budget ledger\<close>

record ModelSelectionRules =
  primary :: string
  fallback :: "string option"
  budget_fallback :: "string option"

record BudgetConstraints =
  monthly_budget :: real
  cost_threshold :: real
  automatic_downshift :: bool

record FeatureFlags =
  a_b_testing :: bool
  quality_priority :: bool

record RoutingPolicy =
  policy_tenant_id :: string
  policy_feature :: string
  model_selection_rules :: ModelSelectionRules
  budget_constraints :: BudgetConstraints
  feature_flags :: FeatureFlags
  created_at :: datetime
  updated_at :: datetime

text \<open>
  \<^verbatim>\<open>policies\<close> is keyed by the string \<^verbatim>\<open>f"{tenant_id}:{feature}"\<close>; \<^verbatim>\<open>budget_tracker\<close>
  maps a tenant to its months, and a month (\<^verbatim>\<open>"%Y-%m"\<close>) to the amount spent.
\<close>

record RoutingPolicyManager =
  policies :: "string \<rightharpoonup> RoutingPolicy"
  budget_tracker :: "string \<rightharpoonup> (string \<rightharpoonup> real)"

definition policy_key :: "string \<Rightarrow> string \<Rightarrow> string" where
  "policy_key tenant feat = tenant @ '':'' @ feat"

definition get_policy :: "RoutingPolicyManager \<Rightarrow> string \<Rightarrow> string \<Rightarrow> RoutingPolicy option" where
  "get_policy pm tenant feat = policies pm (policy_key tenant feat)"

definition get_default_policy :: "RoutingPolicyManager \<Rightarrow> string \<Rightarrow> RoutingPolicy option" where
  "get_default_policy pm feat = get_policy pm ''default'' feat"

text \<open>\<^verbatim>\<open>budget_tracker.get(tenant_id, {}).get(current_month, 0.0)\<close>\<close>

definition current_spend :: "(string \<rightharpoonup> (string \<rightharpoonup> real)) \<Rightarrow> string \<Rightarrow> string \<Rightarrow> real" where
  "current_spend tracker tenant month =
     (case tracker tenant of
        None \<Rightarrow> 0
      | Some months \<Rightarrow> (case months month of None \<Rightarrow> 0 | Some v \<Rightarrow> v))"

text \<open>
  \<^verbatim>\<open>RoutingPolicyManager._validate_model_capabilities\<close>. Its caller \<^verbatim>\<open>select_model\<close>
  passes \<^verbatim>\<open>required_capabilities\<close> with the default \<^verbatim>\<open>None\<close>, which \<^verbatim>\<open>not\<close> treats as the
  empty list. The registry is the module's global instance, here an argument.
\<close>

definition policy_validate_model_capabilities ::
  "ModelRegistry \<Rightarrow> string \<Rightarrow> string list option \<Rightarrow> bool" where
  "policy_validate_model_capabilities reg name required =
     (case required of
        None \<Rightarrow> True
      | Some caps \<Rightarrow>
          if caps = [] then True
          else (case get_model reg name of
                  None \<Rightarrow> False
                | Some m \<Rightarrow>
                    if health_status m \<noteq> ''healthy'' then False
                    else list_all (\<lambda>cap. cap \<in> set (capabilities m)) caps))"

text \<open>\<^verbatim>\<open>RoutingPolicyManager._check_budget_constraints\<close>\<close>

definition policy_check_budget_constraints ::
  "RoutingPolicyManager \<Rightarrow> datetime \<Rightarrow> string \<Rightarrow> RoutingPolicy \<Rightarrow> real option \<Rightarrow> bool" where
  "policy_check_budget_constraints pm now tenant policy override =
     (if \<not> automatic_downshift (budget_constraints policy) then True
      else
        let current_month = year_month now;
            current_budget = current_spend (budget_tracker pm) tenant current_month;
            budget_limit = or_float override (monthly_budget (budget_constraints policy));
            threshold = budget_limit * cost_threshold (budget_constraints policy)
        in current_budget < threshold)"

text \<open>
  \<^verbatim>\<open>record_usage_cost\<close>: creates the tenant's entry and the month's entry when they are
  missing, then adds the amount. The source has no other statement and no check on the
  amount.
\<close>

definition record_usage_cost ::
  "RoutingPolicyManager \<Rightarrow> datetime \<Rightarrow> string \<Rightarrow> real \<Rightarrow> RoutingPolicyManager" where
  "record_usage_cost pm now tenant amount =
     (let current_month = year_month now;
          months = (case budget_tracker pm tenant of None \<Rightarrow> Map.empty | Some ms \<Rightarrow> ms);
          before = (case months current_month of None \<Rightarrow> 0 | Some v \<Rightarrow> v)
      in pm\<lparr>budget_tracker :=
              (budget_tracker pm)(tenant \<mapsto> months(current_month \<mapsto> before + amount))\<rparr>)"

subsection \<open>intelligent\_router.py: requests, responses and the router\<close>

record RoutingRequest =
  tenant_id :: string
  feature :: string
  required_capabilities :: "string list"
  request_quality_priority :: "bool option"
  budget_override :: "real option"
  latency_requirement :: "string option"
  context_length_estimate :: "int option"
  user_override :: "string option"

record RoutingResponse =
  selected_model :: string
  routing_reason :: string
  fallback_used :: bool
  budget_impact :: real
  estimated_latency :: string
  confidence_score :: real

record UsageEntry =
  usage_total_requests :: int
  usage_last_used :: "datetime option"

text \<open>
  The router holds the two stores and its own \<^verbatim>\<open>usage_tracker\<close> (tenant, then
  deployment). Its dictionary \<^verbatim>\<open>performance_metrics\<close> is never read or written after
  construction and is left out.
\<close>

record IntelligentRouter =
  model_registry :: ModelRegistry
  routing_policy_manager :: RoutingPolicyManager
  usage_tracker :: "string \<rightharpoonup> (string \<rightharpoonup> UsageEntry)"

definition validate_model_capabilities :: "ModelRegistry \<Rightarrow> string \<Rightarrow> string list \<Rightarrow> bool" where
  "validate_model_capabilities reg name required =
     (if required = [] then True
      else (case get_model reg name of
              None \<Rightarrow> False
            | Some m \<Rightarrow>
                if health_status m \<noteq> ''healthy'' then False
                else list_all (\<lambda>cap. cap \<in> set (capabilities m)) required))"

definition check_performance_requirements :: "ModelRegistry \<Rightarrow> string \<Rightarrow> RoutingRequest \<Rightarrow> bool" where
  "check_performance_requirements reg name request =
     (case get_model reg name of
        None \<Rightarrow> False
      | Some m \<Rightarrow>
          if (case latency_requirement request of
                None \<Rightarrow> False
              | Some l \<Rightarrow> l \<noteq> []
                  \<and> \<not> meets_latency_requirement (latency (performance_metrics m)) l)
          then False
          else if (case context_length_estimate request of
                     None \<Rightarrow> False
                   | Some n \<Rightarrow> n \<noteq> 0 \<and> n > context_length (performance_metrics m))
          then False
          else True)"

definition check_budget_constraints ::
  "IntelligentRouter \<Rightarrow> datetime \<Rightarrow> string \<Rightarrow> RoutingPolicy \<Rightarrow> real option \<Rightarrow> bool" where
  "check_budget_constraints router now tenant policy override =
     (if \<not> automatic_downshift (budget_constraints policy) then True
      else
        let current_month = year_month now;
            current_budget =
              current_spend (budget_tracker (routing_policy_manager router)) tenant current_month;
            budget_limit = or_float override (monthly_budget (budget_constraints policy));
            threshold = budget_limit * cost_threshold (budget_constraints policy)
        in current_budget < threshold)"

definition select_quality_priority_model ::
  "ModelRegistry \<Rightarrow> RoutingRequest \<Rightarrow> RoutingPolicy \<Rightarrow> string option" where
  "select_quality_priority_model reg request policy =
     (let rules = model_selection_rules policy; caps = required_capabilities request in
      if validate_model_capabilities reg (primary rules) caps
         \<and> check_performance_requirements reg (primary rules) request
      then Some (primary rules)
      else if truthy_str (fallback rules)
         \<and> validate_model_capabilities reg (the (fallback rules)) caps
         \<and> check_performance_requirements reg (the (fallback rules)) request
      then fallback rules
      else if truthy_str (budget_fallback rules)
         \<and> validate_model_capabilities reg (the (budget_fallback rules)) caps
      then budget_fallback rules
      else None)"

definition select_cost_optimized_model ::
  "ModelRegistry \<Rightarrow> RoutingRequest \<Rightarrow> RoutingPolicy \<Rightarrow> string option" where
  "select_cost_optimized_model reg request policy =
     (let rules = model_selection_rules policy; caps = required_capabilities request in
      if truthy_str (fallback rules)
         \<and> validate_model_capabilities reg (the (fallback rules)) caps
         \<and> check_performance_requirements reg (the (fallback rules)) request
      then fallback rules
      else if validate_model_capabilities reg (primary rules) caps
         \<and> check_performance_requirements reg (primary rules) request
      then Some (primary rules)
      else if truthy_str (budget_fallback rules)
         \<and> validate_model_capabilities reg (the (budget_fallback rules)) caps
      then budget_fallback rules
      else None)"

definition select_optimal_model ::
  "IntelligentRouter \<Rightarrow> datetime \<Rightarrow> RoutingRequest \<Rightarrow> RoutingPolicy \<Rightarrow> string option" where
  "select_optimal_model router now request policy =
     (let rules = model_selection_rules policy; reg = model_registry router in
      if \<not> check_budget_constraints router now (tenant_id request) policy (budget_override request)
         \<and> truthy_str (budget_fallback rules)
         \<and> validate_model_capabilities reg (the (budget_fallback rules))
              (required_capabilities request)
      then budget_fallback rules
      else
        let quality =
              (case request_quality_priority request of
                 None \<Rightarrow> quality_priority (feature_flags policy)
               | Some q \<Rightarrow> q)
        in if quality then select_quality_priority_model reg request policy
           else select_cost_optimized_model reg request policy)"

definition validate_user_override :: "ModelRegistry \<Rightarrow> string \<Rightarrow> string list \<Rightarrow> bool" where
  "validate_user_override reg name required = validate_model_capabilities reg name required"

definition estimate_request_cost ::
  "ModelRegistry \<Rightarrow> string \<Rightarrow> RoutingRequest \<Rightarrow> exn + real" where
  "estimate_request_cost reg name request =
     (let estimated_input_tokens = or_int (context_length_estimate request) 1000;
          estimated_output_tokens = 500
      in get_model_cost_estimate reg name estimated_input_tokens estimated_output_tokens)"

text \<open>\<^verbatim>\<open>model.performance_metrics.latency if model else "unknown"\<close>\<close>

definition latency_or_unknown :: "ModelInfo option \<Rightarrow> string" where
  "latency_or_unknown model =
     (case model of Some m \<Rightarrow> latency (performance_metrics m) | None \<Rightarrow> ''unknown'')"

text \<open>
  \<^verbatim>\<open>_create_override_response\<close> and \<^verbatim>\<open>_create_routing_response\<close> look the deployment up,
  estimate the cost, which can raise, and build the response.
\<close>

definition create_override_response ::
  "ModelRegistry \<Rightarrow> string \<Rightarrow> RoutingRequest \<Rightarrow> exn + RoutingResponse" where
  "create_override_response reg name request =
     (case estimate_request_cost reg name request of
        Inl e \<Rightarrow> Inl e
      | Inr estimated_cost \<Rightarrow>
          Inr \<lparr>selected_model = name,
               routing_reason = ''User override'',
               fallback_used = False,
               budget_impact = estimated_cost,
               estimated_latency = latency_or_unknown (get_model reg name),
               confidence_score = 1\<rparr>)"

definition create_routing_response ::
  "ModelRegistry \<Rightarrow> RoutingRequest \<Rightarrow> string \<Rightarrow> RoutingPolicy \<Rightarrow> exn + RoutingResponse" where
  "create_routing_response reg request selected policy =
     (case estimate_request_cost reg selected request of
        Inl e \<Rightarrow> Inl e
      | Inr estimated_cost \<Rightarrow>
          let rules = model_selection_rules policy;
              used = (selected \<noteq> primary rules);
              reason =
                (if used then
                   (if Some selected = budget_fallback rules
                    then ''Budget constraint - using cost-optimized model''
                    else ''Primary model unavailable - using fallback'')
                 else ''Primary model selected'')
          in Inr \<lparr>selected_model = selected,
                  routing_reason = reason,
                  fallback_used = used,
                  budget_impact = estimated_cost,
                  estimated_latency = latency_or_unknown (get_model reg selected),
                  confidence_score = (if \<not> used then 9 / 10 else 7 / 10)\<rparr>)"

definition create_error_response :: "string \<Rightarrow> RoutingResponse" where
  "create_error_response error_message =
     \<lparr>selected_model = [],
      routing_reason = error_message,
      fallback_used = False,
      budget_impact = 0,
      estimated_latency = ''unknown'',
      confidence_score = 0\<rparr>"

definition update_usage_tracking ::
  "IntelligentRouter \<Rightarrow> datetime \<Rightarrow> string \<Rightarrow> string \<Rightarrow> IntelligentRouter" where
  "update_usage_tracking router now tenant name =
     (let per_tenant = (case usage_tracker router tenant of None \<Rightarrow> Map.empty | Some t \<Rightarrow> t);
          entry = (case per_tenant name of
                     None \<Rightarrow> \<lparr>usage_total_requests = 0, usage_last_used = None\<rparr>
                   | Some e \<Rightarrow> e);
          entry' = \<lparr>usage_total_requests = usage_total_requests entry + 1,
                    usage_last_used = Some now\<rparr>
      in router\<lparr>usage_tracker := (usage_tracker router)(tenant \<mapsto> per_tenant(name \<mapsto> entry'))\<rparr>)"

text \<open>
  \<^verbatim>\<open>get_policy(tenant_id, feature)\<close>, and \<^verbatim>\<open>get_default_policy(feature)\<close> when there is
  none. A policy object is always truthy, so \<^verbatim>\<open>not policy\<close> tests for \<^verbatim>\<open>None\<close>.
\<close>

definition resolve_policy :: "RoutingPolicyManager \<Rightarrow> RoutingRequest \<Rightarrow> RoutingPolicy option" where
  "resolve_policy pm request =
     (case get_policy pm (tenant_id request) (feature request) of
        Some p \<Rightarrow> Some p
      | None \<Rightarrow> get_default_policy pm (feature request))"

text \<open>
  \<^verbatim>\<open>route_request\<close> returns the response and the router with its usage tracking
  updated, or raises the exception of the cost estimate; it raises before it changes the
  router. \<open>route_by_policy\<close> is the part of its body after the user override (from
  \<^verbatim>\<open># Get routing policy\<close> to the end), which never reads \<^verbatim>\<open>request.user_override\<close>.
\<close>

definition route_by_policy ::
  "IntelligentRouter \<Rightarrow> datetime \<Rightarrow> RoutingRequest
   \<Rightarrow> exn + RoutingResponse \<times> IntelligentRouter" where
  "route_by_policy router now request =
     (case resolve_policy (routing_policy_manager router) request of
        None \<Rightarrow> Inr (create_error_response ''No routing policy found'', router)
      | Some policy \<Rightarrow>
          (case select_optimal_model router now request policy of
             None \<Rightarrow> Inr (create_error_response ''No suitable model available'', router)
           | Some selected \<Rightarrow>
               if selected = [] then
                 Inr (create_error_response ''No suitable model available'', router)
               else
                 (case create_routing_response (model_registry router) request selected policy of
                    Inl e \<Rightarrow> Inl e
                  | Inr response \<Rightarrow>
                      Inr (response,
                           update_usage_tracking router now (tenant_id request) selected))))"

text \<open>
  The condition under which \<^verbatim>\<open>route_request\<close> returns the user's override:
  \<^verbatim>\<open>if request.user_override:\<close> and, inside it, \<^verbatim>\<open>if self._validate_user_override(...)\<close>.
\<close>

definition override_accepted :: "IntelligentRouter \<Rightarrow> RoutingRequest \<Rightarrow> bool" where
  "override_accepted router request =
     (case user_override request of
        None \<Rightarrow> False
      | Some name \<Rightarrow>
          name \<noteq> []
          \<and> validate_user_override (model_registry router) name (required_capabilities request))"

definition route_request ::
  "IntelligentRouter \<Rightarrow> datetime \<Rightarrow> RoutingRequest
   \<Rightarrow> exn + RoutingResponse \<times> IntelligentRouter" where
  "route_request router now request =
     (if override_accepted router request
      then (case create_override_response (model_registry router)
                   (the (user_override request)) request of
              Inl e \<Rightarrow> Inl e
            | Inr response \<Rightarrow> Inr (response, router))
      else route_by_policy router now request)"

text \<open>
  The candidates of a preference ordering, in the words of the specification: an
  optional candidate takes part when it is set and not empty, and the first candidate
  that passes its check is chosen. The selection functions above are compared with it.
\<close>

definition optional_candidate ::
  "string option \<Rightarrow> (string \<Rightarrow> bool) \<Rightarrow> (string \<times> (string \<Rightarrow> bool)) list" where
  "optional_candidate name check =
     (case name of None \<Rightarrow> [] | Some n \<Rightarrow> if n \<noteq> [] then [(n, check)] else [])"

definition first_passing :: "(string \<times> (string \<Rightarrow> bool)) list \<Rightarrow> string option" where
  "first_passing candidates =
     map_option fst (find (\<lambda>(name, check). check name) candidates)"

subsection \<open>Loading the catalog and the policies\<close>

text \<open>
  What \<^verbatim>\<open>load_config\<close> and \<^verbatim>\<open>load_policies\<close> find at \<^verbatim>\<open>config_path\<close>: no file
  (\<^verbatim>\<open>os.path.exists\<close> is false); a file that \<^verbatim>\<open>open\<close> or \<^verbatim>\<open>json.load\<close> rejects; a JSON value
  without the method \<^verbatim>\<open>get\<close> (not an object); or an object, of which the list under the
  key \<^verbatim>\<open>'models'\<close> (or \<^verbatim>\<open>'routing_policies'\<close>) is kept, empty when the key is missing. An
  entry of the list is well-formed when the constructor call of the source succeeds on
  it, and malformed when that call raises (a missing or an extra key, a value that is
  not an object).
\<close>

datatype 'a config_entry = Wellformed 'a | Malformed

datatype 'a config_file = FileMissing | JsonError | NotAnObject | Parsed "'a config_entry list"

text \<open>
  \<^verbatim>\<open>_resolve_environment_variables\<close>, with \<^verbatim>\<open>os.environ\<close> as a map: \<^verbatim>\<open>$NAME\<close> and a bare
  \<^verbatim>\<open>NAME\<close> are replaced by the value of the variable when it is set and not empty.
\<close>

definition resolve_environment_variables :: "(string \<rightharpoonup> string) \<Rightarrow> string \<Rightarrow> string" where
  "resolve_environment_variables env v =
     (case v of
        c # env_var \<Rightarrow>
          if c = CHR ''$'' then
            (case env env_var of
               Some resolved \<Rightarrow> if resolved \<noteq> [] then resolved else v
             | None \<Rightarrow> v)
          else
            (case env v of
               Some resolved \<Rightarrow> if resolved \<noteq> [] then resolved else v
             | None \<Rightarrow> v)
      | [] \<Rightarrow>
          (case env v of
             Some resolved \<Rightarrow> if resolved \<noteq> [] then resolved else v
           | None \<Rightarrow> v))"

text \<open>
  \<^verbatim>\<open>_resolve_model_data\<close> resolves every string of the entry, also in the nested objects
  and in the lists, and leaves the numbers. A well-formed entry carries the nine
  configured fields in a \<open>ModelInfo\<close>; \<^verbatim>\<open>_create_model_info\<close> gives the other four their
  dataclass defaults.
\<close>

definition resolve_model_data :: "(string \<rightharpoonup> string) \<Rightarrow> ModelInfo \<Rightarrow> ModelInfo" where
  "resolve_model_data env d =
     d\<lparr>deployment_name := resolve_environment_variables env (deployment_name d),
       endpoint := resolve_environment_variables env (endpoint d),
       api_version := resolve_environment_variables env (api_version d),
       capabilities := map (resolve_environment_variables env) (capabilities d),
       performance_metrics :=
         (performance_metrics d)
           \<lparr>latency := resolve_environment_variables env (latency (performance_metrics d)),
            quality := resolve_environment_variables env (quality (performance_metrics d))\<rparr>,
       tags := map (resolve_environment_variables env) (tags d),
       health_status := resolve_environment_variables env (health_status d)\<rparr>"

definition create_model_info :: "ModelInfo \<Rightarrow> ModelInfo" where
  "create_model_info d =
     d\<lparr>last_health_check := None, error_count := 0, total_requests := 0, total_tokens := 0\<rparr>"

text \<open>
  The loop of \<^verbatim>\<open>load_config\<close> over the entries, on the dictionary \<^verbatim>\<open>self.models\<close>. An
  exception leaves the loop: the result is the dictionary as it is at that point, and
  \<open>False\<close> for "the loop did not complete".
\<close>

fun load_models ::
  "(string \<rightharpoonup> string) \<Rightarrow> (string \<rightharpoonup> ModelInfo) \<Rightarrow> ModelInfo config_entry list
   \<Rightarrow> (string \<rightharpoonup> ModelInfo) \<times> bool" where
  "load_models env ms [] = (ms, True)"
| "load_models env ms (Malformed # es) = (ms, False)"
| "load_models env ms (Wellformed d # es) =
     (let m = create_model_info (resolve_model_data env d)
      in load_models env (ms(deployment_name m \<mapsto> m)) es)"

text \<open>
  \<^verbatim>\<open>load_config\<close>: the \<^verbatim>\<open>try\<close> block reads the file, then calls \<^verbatim>\<open>self.models.clear()\<close>, then
  runs the loop, then sets \<^verbatim>\<open>last_config_load\<close>; the \<^verbatim>\<open>except\<close> clause logs and returns.
\<close>

definition load_config ::
  "(string \<rightharpoonup> string) \<Rightarrow> datetime \<Rightarrow> ModelRegistry \<Rightarrow> ModelInfo config_file \<Rightarrow> ModelRegistry" where
  "load_config env now reg file =
     (case file of
        FileMissing \<Rightarrow> reg
      | JsonError \<Rightarrow> reg
      | NotAnObject \<Rightarrow> reg\<lparr>models := Map.empty\<rparr>
      | Parsed entries \<Rightarrow>
          (case load_models env Map.empty entries of
             (ms, True) \<Rightarrow> reg\<lparr>models := ms, last_config_load := Some now\<rparr>
           | (ms, False) \<Rightarrow> reg\<lparr>models := ms\<rparr>))"

text \<open>
  \<^verbatim>\<open>_create_routing_policy\<close>: \<^verbatim>\<open>__post_init__\<close> sets the two timestamps, which the
  configuration does not give.
\<close>

definition create_routing_policy :: "datetime \<Rightarrow> RoutingPolicy \<Rightarrow> RoutingPolicy" where
  "create_routing_policy now d = d\<lparr>created_at := now, updated_at := now\<rparr>"

fun load_policy_entries ::
  "datetime \<Rightarrow> (string \<rightharpoonup> RoutingPolicy) \<Rightarrow> RoutingPolicy config_entry list
   \<Rightarrow> (string \<rightharpoonup> RoutingPolicy) \<times> bool" where
  "load_policy_entries now ps [] = (ps, True)"
| "load_policy_entries now ps (Malformed # es) = (ps, False)"
| "load_policy_entries now ps (Wellformed d # es) =
     (let policy = create_routing_policy now d;
          key = policy_key (policy_tenant_id policy) (policy_feature policy)
      in load_policy_entries now (ps(key \<mapsto> policy)) es)"

definition load_policies ::
  "datetime \<Rightarrow> RoutingPolicyManager \<Rightarrow> RoutingPolicy config_file \<Rightarrow> RoutingPolicyManager" where
  "load_policies now pm file =
     (case file of
        FileMissing \<Rightarrow> pm
      | JsonError \<Rightarrow> pm
      | NotAnObject \<Rightarrow> pm\<lparr>policies := Map.empty\<rparr>
      | Parsed entries \<Rightarrow> pm\<lparr>policies := fst (load_policy_entries now Map.empty entries)\<rparr>)"

subsection \<open>azure\_openai\_client.py: the invocation client\<close>

record ChatMessage =
  role :: string
  content :: string
  message_name :: "string option"

record ChatCompletionRequest =
  messages :: "ChatMessage list"
  chat_model :: "string option"
  temperature :: real
  max_tokens :: "int option"
  top_p :: real
  frequency_penalty :: real
  presence_penalty :: real
  stop :: "string list option"
  stream :: bool

record ChatCompletionResponse =
  response_content :: "string option"
  model_used :: string
  tokens_used :: int
  cost :: real
  latency_ms :: real
  finish_reason :: string

record EmbeddingRequest =
  embedding_text :: string
  embedding_model :: "string option"

record EmbeddingResponse =
  embedding :: "real list"
  embedding_model_used :: string
  embedding_tokens_used :: int
  embedding_cost :: real
  embedding_latency_ms :: real

text \<open>
  What the backend returns, as far as the client reads it: \<^verbatim>\<open>response.choices\<close> with
  \<^verbatim>\<open>message.content\<close> (which can be \<^verbatim>\<open>None\<close>) and \<^verbatim>\<open>finish_reason\<close>, \<^verbatim>\<open>response.data\<close> with
  \<^verbatim>\<open>embedding\<close>, and \<^verbatim>\<open>response.usage\<close> (which can be \<^verbatim>\<open>None\<close>). A chat call with
  \<^verbatim>\<open>stream=True\<close> returns a stream object, which has none of these attributes.
\<close>

record Usage =
  prompt_tokens :: int
  completion_tokens :: int
  usage_total_tokens :: int

record Choice =
  message_content :: "string option"
  choice_finish_reason :: string

record ChatCompletionObject =
  choices :: "Choice list"
  usage :: "Usage option"

datatype ChatApiResponse = Completion ChatCompletionObject | StreamObject

record EmbeddingApiResponse =
  data :: "real list list"
  embedding_usage :: "Usage option"

text \<open>
  The client holds the router, and a backend client for each deployment name in
  \<^verbatim>\<open>self.clients\<close>. Its \<^verbatim>\<open>self.model_registry\<close> is the module's global registry, the
  object the router holds: one copy here, the router's. A backend call is an argument:
  a function from the deployment name and the request to the response or the exception.
  Each function returns, with its result and the client after it, the list of the
  deployment names on which it called the backend.
\<close>

record AzureOpenAIClient =
  intelligent_router :: IntelligentRouter
  clients :: "string set"

text \<open>
  A Python string is here the list of the bytes of its UTF-8 encoding. \<^verbatim>\<open>str.lower\<close>:
  the letters A to Z are lowered; U+0130 becomes i followed by U+0307 and U+212A becomes
  k, the only two characters outside ASCII whose lower case has an ASCII letter. The
  other letters that \<^verbatim>\<open>str.lower\<close> changes are outside ASCII before and after, and are
  left as they are: the test \<^verbatim>\<open>word in s.lower()\<close> for an ASCII word has the same result.
\<close>

definition char_lower :: "char \<Rightarrow> char" where
  "char_lower c =
     (if (65::nat) \<le> of_char c \<and> (of_char c :: nat) \<le> 90
      then char_of ((of_char c :: nat) + 32) else c)"

fun lower :: "string \<Rightarrow> string" where
  "lower [] = []"
| "lower (c # cs) =
     (if c = CHR 0xC4 \<and> take 1 cs = [CHR 0xB0]
      then CHR ''i'' # CHR 0xCC # CHR 0x87 # lower (drop 1 cs)
      else if c = CHR 0xE2 \<and> take 2 cs = [CHR 0x84, CHR 0xAA]
      then CHR ''k'' # lower (drop 2 cs)
      else char_lower c # lower cs)"

fun starts_with :: "string \<Rightarrow> string \<Rightarrow> bool" where
  "starts_with [] s = True"
| "starts_with (p # ps) [] = False"
| "starts_with (p # ps) (c # cs) = (p = c \<and> starts_with ps cs)"

fun contains :: "string \<Rightarrow> string \<Rightarrow> bool" where
  "contains sub [] = (sub = [])"
| "contains sub (c # cs) = (starts_with sub (c # cs) \<or> contains sub cs)"

text \<open>
  The white space of \<^verbatim>\<open>str.split()\<close>: the number of bytes of the white-space character
  at the head of the string, 0 when there is none. The characters are U+0009 to U+000D,
  U+001C to U+0020, U+0085, U+00A0, U+1680, U+2000 to U+200A, U+2028, U+2029, U+202F,
  U+205F and U+3000.
\<close>

definition space_length :: "string \<Rightarrow> nat" where
  "space_length s =
     (case s of
        [] \<Rightarrow> 0
      | c # cs \<Rightarrow>
          if ((9::nat) \<le> of_char c \<and> (of_char c :: nat) \<le> 13)
             \<or> ((28::nat) \<le> of_char c \<and> (of_char c :: nat) \<le> 32) then 1
          else if c = CHR 0xC2 \<and> (take 1 cs = [CHR 0x85] \<or> take 1 cs = [CHR 0xA0]) then 2
          else if c = CHR 0xE1 \<and> take 2 cs = [CHR 0x9A, CHR 0x80] then 3
          else if c = CHR 0xE2 \<and> take 1 cs = [CHR 0x80]
               \<and> (case drop 1 cs of
                     [] \<Rightarrow> False
                   | d # _ \<Rightarrow>
                       ((128::nat) \<le> of_char d \<and> (of_char d :: nat) \<le> 138)
                       \<or> d = CHR 0xA8 \<or> d = CHR 0xA9 \<or> d = CHR 0xAF) then 3
          else if c = CHR 0xE2 \<and> take 2 cs = [CHR 0x81, CHR 0x9F] then 3
          else if c = CHR 0xE3 \<and> take 2 cs = [CHR 0x80, CHR 0x80] then 3
          else 0)"

text \<open>
  \<^verbatim>\<open>len(s.split())\<close>: the number of maximal runs of characters that are not white space.
  \<open>in_word\<close> tells whether the byte before the head belongs to such a run.
\<close>

fun split_count :: "bool \<Rightarrow> string \<Rightarrow> nat" where
  "split_count in_word [] = 0"
| "split_count in_word (c # cs) =
     (if space_length (c # cs) = 0
      then (if in_word then 0 else 1) + split_count True cs
      else split_count False (drop (space_length (c # cs) - 1) cs))"

definition len_split :: "string \<Rightarrow> int" where
  "len_split s = int (split_count False s)"

definition estimate_context_length :: "ChatMessage list \<Rightarrow> int" where
  "estimate_context_length msgs =
     foldl (\<lambda>total_length message. total_length + (len_split (content message) + 10)) 0 msgs"

text \<open>The routing requests that \<^verbatim>\<open>chat_completion\<close> and \<^verbatim>\<open>create_embedding\<close> build.\<close>

definition chat_routing_request ::
  "ChatCompletionRequest \<Rightarrow> string \<Rightarrow> string \<Rightarrow> string option \<Rightarrow> RoutingRequest" where
  "chat_routing_request request tenant feat override =
     \<lparr>tenant_id = tenant,
      feature = feat,
      required_capabilities =
        [''chat'']
        @ (if list_ex (\<lambda>msg. contains ''vision'' (lower (content msg))) (messages request)
           then [''vision''] else [])
        @ (if list_ex (\<lambda>msg. contains ''tool'' (lower (content msg))) (messages request)
           then [''tools''] else []),
      request_quality_priority = None,
      budget_override = None,
      latency_requirement = None,
      context_length_estimate = Some (estimate_context_length (messages request)),
      user_override = override\<rparr>"

definition embedding_routing_request ::
  "EmbeddingRequest \<Rightarrow> string \<Rightarrow> string \<Rightarrow> string option \<Rightarrow> RoutingRequest" where
  "embedding_routing_request request tenant feat override =
     \<lparr>tenant_id = tenant,
      feature = feat,
      required_capabilities = [''embeddings''],
      request_quality_priority = None,
      budget_override = None,
      latency_requirement = None,
      context_length_estimate = Some (len_split (embedding_text request)),
      user_override = override\<rparr>"

definition execute_chat_completion ::
  "AzureOpenAIClient \<Rightarrow> (string \<Rightarrow> ChatCompletionRequest \<Rightarrow> exn + ChatApiResponse)
   \<Rightarrow> ChatCompletionRequest \<Rightarrow> string \<Rightarrow> (exn + ChatApiResponse) \<times> string list" where
  "execute_chat_completion client backend request model_name =
     (if model_name \<notin> clients client
      then (Inl (ValueError (''No client available for model: '' @ model_name)), [])
      else (backend model_name request, [model_name]))"

definition execute_embedding ::
  "AzureOpenAIClient \<Rightarrow> (string \<Rightarrow> EmbeddingRequest \<Rightarrow> exn + EmbeddingApiResponse)
   \<Rightarrow> EmbeddingRequest \<Rightarrow> string \<Rightarrow> (exn + EmbeddingApiResponse) \<times> string list" where
  "execute_embedding client backend request model_name =
     (if model_name \<notin> clients client
      then (Inl (ValueError (''No client available for model: '' @ model_name)), [])
      else (backend model_name request, [model_name]))"

text \<open>
  \<^verbatim>\<open>_calculate_chat_cost\<close> and \<^verbatim>\<open>_calculate_embedding_cost\<close> return 0.0 for an unknown
  deployment before they read the response; the products are of an \<^verbatim>\<open>int\<close> and a
  \<^verbatim>\<open>float\<close>.
\<close>

definition calculate_chat_cost ::
  "ModelRegistry \<Rightarrow> string \<Rightarrow> ChatApiResponse \<Rightarrow> exn + real" where
  "calculate_chat_cost reg model_name response =
     (case get_model reg model_name of
        None \<Rightarrow> Inr 0
      | Some m \<Rightarrow>
          (case response of
             StreamObject \<Rightarrow> Inl AttributeError
           | Completion r \<Rightarrow>
               (case usage r of
                  None \<Rightarrow> Inl AttributeError
                | Some u \<Rightarrow>
                    (case int_to_float (prompt_tokens u) of
                       Inl e \<Rightarrow> Inl e
                     | Inr p \<Rightarrow>
                         (case int_to_float (completion_tokens u) of
                            Inl e \<Rightarrow> Inl e
                          | Inr c \<Rightarrow>
                              Inr (p * input_cost (cost_per_token m)
                                   + c * output_cost (cost_per_token m)))))))"

definition calculate_embedding_cost ::
  "ModelRegistry \<Rightarrow> string \<Rightarrow> EmbeddingApiResponse \<Rightarrow> exn + real" where
  "calculate_embedding_cost reg model_name response =
     (case get_model reg model_name of
        None \<Rightarrow> Inr 0
      | Some m \<Rightarrow>
          (case embedding_usage response of
             None \<Rightarrow> Inl AttributeError
           | Some u \<Rightarrow>
               (case int_to_float (usage_total_tokens u) of
                  Inl e \<Rightarrow> Inl e
                | Inr t \<Rightarrow> Inr (t * input_cost (cost_per_token m)))))"

text \<open>
  The client's \<^verbatim>\<open>_update_usage_tracking\<close>: \<^verbatim>\<open>record_usage(model_name)\<close> on the registry
  and \<^verbatim>\<open>record_usage_cost(tenant_id, cost)\<close> on the policy manager.
\<close>

definition client_update_usage_tracking ::
  "AzureOpenAIClient \<Rightarrow> datetime \<Rightarrow> string \<Rightarrow> string \<Rightarrow> real \<Rightarrow> AzureOpenAIClient" where
  "client_update_usage_tracking client now tenant model_name c =
     (let router = intelligent_router client
      in client\<lparr>intelligent_router :=
           router\<lparr>model_registry := record_usage (model_registry router) model_name 1 0,
                  routing_policy_manager :=
                    record_usage_cost (routing_policy_manager router) now tenant c\<rparr>\<rparr>)"

text \<open>
  The \<^verbatim>\<open>except\<close> clause of \<^verbatim>\<open>chat_completion\<close> and of \<^verbatim>\<open>create_embedding\<close>, before it
  raises the exception again:
  \<^verbatim>\<open>self.model_registry.update_model_health(selected_model, "unhealthy", error_count=1)\<close>.
\<close>

definition report_failure :: "AzureOpenAIClient \<Rightarrow> datetime \<Rightarrow> string \<Rightarrow> AzureOpenAIClient" where
  "report_failure client now model_name =
     (let router = intelligent_router client
      in client\<lparr>intelligent_router :=
           router\<lparr>model_registry :=
             update_model_health now (model_registry router) model_name ''unhealthy'' 1\<rparr>\<rparr>)"

text \<open>
  The \<^verbatim>\<open>return ChatCompletionResponse(...)\<close> and \<^verbatim>\<open>return EmbeddingResponse(...)\<close> of
  the two functions, whose arguments read the response in the order of the source.
\<close>

definition chat_completion_response ::
  "string \<Rightarrow> real \<Rightarrow> real \<Rightarrow> ChatApiResponse \<Rightarrow> exn + ChatCompletionResponse" where
  "chat_completion_response selected c ms response =
     (case response of
        StreamObject \<Rightarrow> Inl AttributeError
      | Completion r \<Rightarrow>
          (case choices r of
             [] \<Rightarrow> Inl IndexError
           | choice # _ \<Rightarrow>
               (case usage r of
                  None \<Rightarrow> Inl AttributeError
                | Some u \<Rightarrow>
                    Inr \<lparr>response_content = message_content choice,
                         model_used = selected,
                         tokens_used = usage_total_tokens u,
                         cost = c,
                         latency_ms = ms,
                         finish_reason = choice_finish_reason choice\<rparr>)))"

definition embedding_response ::
  "string \<Rightarrow> real \<Rightarrow> real \<Rightarrow> EmbeddingApiResponse \<Rightarrow> exn + EmbeddingResponse" where
  "embedding_response selected c ms response =
     (case data response of
        [] \<Rightarrow> Inl IndexError
      | e # _ \<Rightarrow>
          (case embedding_usage response of
             None \<Rightarrow> Inl AttributeError
           | Some u \<Rightarrow>
               Inr \<lparr>embedding = e,
                    embedding_model_used = selected,
                    embedding_tokens_used = usage_total_tokens u,
                    embedding_cost = c,
                    embedding_latency_ms = ms\<rparr>))"

text \<open>
  \<^verbatim>\<open>chat_completion\<close>. \<open>start_time\<close> and \<open>end_time\<close> are the two readings of
  \<^verbatim>\<open>time.time()\<close>. An exception of the routing and the \<^verbatim>\<open>ValueError\<close> of a failed routing
  are raised before the \<^verbatim>\<open>try\<close> block; every exception inside the block passes through
  the \<^verbatim>\<open>except\<close> clause.
\<close>

definition chat_completion ::
  "AzureOpenAIClient \<Rightarrow> datetime \<Rightarrow> real \<Rightarrow> real
   \<Rightarrow> (string \<Rightarrow> ChatCompletionRequest \<Rightarrow> exn + ChatApiResponse)
   \<Rightarrow> ChatCompletionRequest \<Rightarrow> string \<Rightarrow> string \<Rightarrow> string option
   \<Rightarrow> (exn + ChatCompletionResponse) \<times> AzureOpenAIClient \<times> string list" where
  "chat_completion client now start_time end_time backend request tenant feat override =
     (case route_request (intelligent_router client) now
             (chat_routing_request request tenant feat override) of
        Inl e \<Rightarrow> (Inl e, client, [])
      | Inr (routing_response, router') \<Rightarrow>
          let client1 = client\<lparr>intelligent_router := router'\<rparr>;
              selected = selected_model routing_response
          in if selected = [] then
               (Inl (ValueError (''Failed to route request: '' @ routing_reason routing_response)),
                client1, [])
             else
               (case execute_chat_completion client1 backend request selected of
                  (Inl e, calls) \<Rightarrow> (Inl e, report_failure client1 now selected, calls)
                | (Inr response, calls) \<Rightarrow>
                    let ms = (end_time - start_time) * 1000
                    in (case calculate_chat_cost (model_registry router') selected response of
                          Inl e \<Rightarrow> (Inl e, report_failure client1 now selected, calls)
                        | Inr c \<Rightarrow>
                            let client2 =
                                  client_update_usage_tracking client1 now tenant selected c
                            in (case chat_completion_response selected c ms response of
                                  Inl e \<Rightarrow> (Inl e, report_failure client2 now selected, calls)
                                | Inr result \<Rightarrow> (Inr result, client2, calls)))))"

definition create_embedding ::
  "AzureOpenAIClient \<Rightarrow> datetime \<Rightarrow> real \<Rightarrow> real
   \<Rightarrow> (string \<Rightarrow> EmbeddingRequest \<Rightarrow> exn + EmbeddingApiResponse)
   \<Rightarrow> EmbeddingRequest \<Rightarrow> string \<Rightarrow> string \<Rightarrow> string option
   \<Rightarrow> (exn + EmbeddingResponse) \<times> AzureOpenAIClient \<times> string list" where
  "create_embedding client now start_time end_time backend request tenant feat override =
     (case route_request (intelligent_router client) now
             (embedding_routing_request request tenant feat override) of
        Inl e \<Rightarrow> (Inl e, client, [])
      | Inr (routing_response, router') \<Rightarrow>
          let client1 = client\<lparr>intelligent_router := router'\<rparr>;
              selected = selected_model routing_response
          in if selected = [] then
               (Inl (ValueError (''Failed to route request: '' @ routing_reason routing_response)),
                client1, [])
             else
               (case execute_embedding client1 backend request selected of
                  (Inl e, calls) \<Rightarrow> (Inl e, report_failure client1 now selected, calls)
                | (Inr response, calls) \<Rightarrow>
                    let ms = (end_time - start_time) * 1000
                    in (case calculate_embedding_cost (model_registry router') selected
                               response of
                          Inl e \<Rightarrow> (Inl e, report_failure client1 now selected, calls)
                        | Inr c \<Rightarrow>
                            let client2 =
                                  client_update_usage_tracking client1 now tenant selected c
                            in (case embedding_response selected c ms response of
                                  Inl e \<Rightarrow> (Inl e, report_failure client2 now selected, calls)
                                | Inr result \<Rightarrow> (Inr result, client2, calls)))))"

subsection \<open>An example configuration\<close>

text \<open>
  Three deployments, one policy for tenant acme and feature qa with a monthly budget of
  100 and a downshift threshold of 0.8, and a ledger on which acme has spent 90 in the
  current month. The concrete instances of the theorems below are taken here.
\<close>

definition example_model :: "string \<Rightarrow> string list \<Rightarrow> string \<Rightarrow> string \<Rightarrow> int \<Rightarrow> ModelInfo" where
  "example_model name caps health lat ctx =
     \<lparr>deployment_name = name,
      endpoint = ''https://example.openai.azure.com/'',
      api_version = ''2024-05-13'',
      capabilities = caps,
      performance_metrics = \<lparr>latency = lat, quality = ''high'', context_length = ctx\<rparr>,
      tags = [],
      health_status = health,
      rate_limits = \<lparr>requests_per_minute = 60, tokens_per_minute = 60000\<rparr>,
      cost_per_token = \<lparr>input_cost = 1 / 100000, output_cost = 3 / 100000\<rparr>,
      last_health_check = None,
      error_count = 0,
      total_requests = 0,
      total_tokens = 0\<rparr>"

definition example_registry :: ModelRegistry where
  "example_registry =
     \<lparr>models =
        [''gpt-4o'' \<mapsto> example_model ''gpt-4o'' [''chat'', ''vision'', ''tools''] ''healthy'' ''medium'' 128000,
         ''gpt-4o-mini'' \<mapsto> example_model ''gpt-4o-mini'' [''chat''] ''healthy'' ''low'' 128000,
         ''gpt-35-turbo'' \<mapsto> example_model ''gpt-35-turbo'' [''chat''] ''healthy'' ''high'' 16000],
      last_config_load = None\<rparr>"

definition example_now :: datetime where
  "example_now = \<lparr>year_month = ''2026-11'', instant = 0\<rparr>"

definition example_policy :: RoutingPolicy where
  "example_policy =
     \<lparr>policy_tenant_id = ''acme'',
      policy_feature = ''qa'',
      model_selection_rules =
        \<lparr>primary = ''gpt-4o'', fallback = Some ''gpt-4o-mini'',
         budget_fallback = Some ''gpt-35-turbo''\<rparr>,
      budget_constraints =
        \<lparr>monthly_budget = 100, cost_threshold = 4 / 5, automatic_downshift = True\<rparr>,
      feature_flags = \<lparr>a_b_testing = False, quality_priority = True\<rparr>,
      created_at = example_now,
      updated_at = example_now\<rparr>"

definition example_manager :: RoutingPolicyManager where
  "example_manager =
     \<lparr>policies = [policy_key ''acme'' ''qa'' \<mapsto> example_policy],
      budget_tracker = [''acme'' \<mapsto> [''2026-11'' \<mapsto> 90]]\<rparr>"

definition example_router :: IntelligentRouter where
  "example_router =
     \<lparr>model_registry = example_registry,
      routing_policy_manager = example_manager,
      usage_tracker = Map.empty\<rparr>"

definition example_request :: RoutingRequest where
  "example_request =
     \<lparr>tenant_id = ''acme'',
      feature = ''qa'',
      required_capabilities = [''chat''],
      request_quality_priority = None,
      budget_override = None,
      latency_requirement = None,
      context_length_estimate = None,
      user_override = None\<rparr>"

definition example_client :: AzureOpenAIClient where
  "example_client =
     \<lparr>intelligent_router = example_router,
      clients = {''gpt-4o'', ''gpt-4o-mini'', ''gpt-35-turbo''}\<rparr>"

definition example_chat_request :: ChatCompletionRequest where
  "example_chat_request =
     \<lparr>messages = [\<lparr>role = ''user'', content = ''Hi'', message_name = None\<rparr>],
      chat_model = None,
      temperature = 7 / 10,
      max_tokens = None,
      top_p = 1,
      frequency_penalty = 0,
      presence_penalty = 0,
      stop = None,
      stream = False\<rparr>"

text \<open>
  A client whose deployment gpt-35-turbo is healthy with two errors counted (the state
  after \<^verbatim>\<open>update_model_health("gpt-35-turbo", "healthy", 2)\<close>), and a backend that fails.
\<close>

definition example_client_after_errors :: AzureOpenAIClient where
  "example_client_after_errors =
     example_client\<lparr>intelligent_router :=
       example_router\<lparr>model_registry :=
         update_model_health example_now example_registry ''gpt-35-turbo'' ''healthy'' 2\<rparr>\<rparr>"

definition example_failing_backend :: "string \<Rightarrow> ChatCompletionRequest \<Rightarrow> exn + ChatApiResponse" where
  "example_failing_backend model_name request = Inl (ApiError ''timeout'')"

section \<open>Properties\<close>

subsection \<open>Latency comparison\<close>

lemma latency_level_unknown: "\<not> known_latency x \<Longrightarrow> latency_level x = 3"
  by (simp add: known_latency_def latency_level_def)

lemma latency_level_le_3: "latency_level x \<le> 3"
  by (simp add: latency_level_def)

lemma latency_level_eq_3: "latency_level x = 3 \<longleftrightarrow> x = ''high'' \<or> \<not> known_latency x"
  by (simp add: latency_level_def known_latency_def)

text \<open>
  Claim C10. In the latency comparison of performance-fit validation, a latency class
  outside very\_low, low, medium, high, on the deployment or on the request, has the level
  of "high". So a deployment with an unrecognised class meets exactly the requirements
  "high" and the unrecognised ones, and an unrecognised requirement is met by every
  deployment.
\<close>

theorem unknown_latency_is_slowest:
  "(\<not> known_latency x \<longrightarrow> latency_level x = latency_level ''high'')
   \<and> (\<not> known_latency m \<longrightarrow>
        (meets_latency_requirement m r \<longleftrightarrow> r = ''high'' \<or> \<not> known_latency r))
   \<and> (\<not> known_latency r \<longrightarrow> meets_latency_requirement m r)"
proof (intro conjI impI)
  assume "\<not> known_latency x"
  moreover have "latency_level ''high'' = 3"
    by (simp add: latency_level_def)
  ultimately show "latency_level x = latency_level ''high''"
    by (simp add: latency_level_unknown)
next
  assume m: "\<not> known_latency m"
  have "meets_latency_requirement m r \<longleftrightarrow> 3 \<le> latency_level r"
    by (simp add: meets_latency_requirement_def latency_level_unknown [OF m])
  also have "\<dots> \<longleftrightarrow> latency_level r = 3"
    using latency_level_le_3 [of r] by arith
  finally show "meets_latency_requirement m r \<longleftrightarrow> r = ''high'' \<or> \<not> known_latency r"
    by (simp add: latency_level_eq_3)
next
  assume "\<not> known_latency r"
  then show "meets_latency_requirement m r"
    by (simp add: meets_latency_requirement_def latency_level_unknown latency_level_le_3)
qed

theorem unknown_latency_is_slowest_witness:
  "\<not> known_latency ''turbo''
   \<and> latency_level ''turbo'' = latency_level ''high''
   \<and> meets_latency_requirement ''turbo'' ''high''
   \<and> \<not> meets_latency_requirement ''turbo'' ''medium''
   \<and> meets_latency_requirement ''medium'' ''turbo''"
  using unknown_latency_is_slowest [of "''turbo''" "''turbo''" "''medium''"]
    unknown_latency_is_slowest [of "''turbo''" "''turbo''" "''high''"]
    unknown_latency_is_slowest [of "''turbo''" "''medium''" "''turbo''"]
  by (simp add: known_latency_def)

lemmas example_defs =
  example_model_def example_registry_def example_now_def example_policy_def
  example_manager_def example_router_def example_request_def

subsection \<open>Capability validation\<close>

text \<open>
  Both copies of the validation return \<^verbatim>\<open>True\<close> for an empty list of required
  capabilities before they look the deployment up.
\<close>

lemma validate_empty_required: "validate_model_capabilities reg name []"
  by (simp add: validate_model_capabilities_def)

lemma validate_nonempty_required:
  "required \<noteq> [] \<Longrightarrow>
   validate_model_capabilities reg name required \<longleftrightarrow>
     (\<exists>m. get_model reg name = Some m \<and> health_status m = ''healthy''
          \<and> set required \<subseteq> set (capabilities m))"
  by (auto simp: validate_model_capabilities_def list_all_iff split: option.splits)

lemma validate_unknown_deployment:
  "get_model reg name = None \<Longrightarrow> validate_model_capabilities reg name required \<longleftrightarrow> required = []"
  by (simp add: validate_model_capabilities_def)

text \<open>
  Claim C1, as stated: validation succeeds if and only if the name is in the Directory, the
  deployment is healthy and offers every required capability. It fails on the code for an
  empty list of required capabilities: a name that is not in the Directory validates.
\<close>

theorem validation_of_unknown_deployment_counterexample:
  "validate_model_capabilities \<lparr>models = Map.empty, last_config_load = None\<rparr> ''claude-x'' []
   \<and> get_model \<lparr>models = Map.empty, last_config_load = None\<rparr> ''claude-x'' = None"
  by (simp add: validate_model_capabilities_def get_model_def)

text \<open>
  Claim C1, amended. Validation succeeds if and only if the list of required capabilities
  is empty, or the name is in the Directory, the deployment's health is "healthy" and it
  offers every required capability. This holds of the router's copy and of the policy
  manager's, which also takes no list at all (\<^verbatim>\<open>None\<close>) for the empty one. In particular
  an empty list validates for any healthy deployment (and for every other name).
\<close>

theorem capability_validation_iff:
  "(validate_model_capabilities reg name required \<longleftrightarrow>
      required = [] \<or>
      (\<exists>m. get_model reg name = Some m \<and> health_status m = ''healthy''
           \<and> set required \<subseteq> set (capabilities m)))
   \<and> (policy_validate_model_capabilities reg name (Some required) \<longleftrightarrow>
        validate_model_capabilities reg name required)
   \<and> policy_validate_model_capabilities reg name None
   \<and> validate_model_capabilities reg name []"
proof (intro conjI)
  show "validate_model_capabilities reg name required \<longleftrightarrow>
      required = [] \<or>
      (\<exists>m. get_model reg name = Some m \<and> health_status m = ''healthy''
           \<and> set required \<subseteq> set (capabilities m))"
    by (cases "required = []") (simp_all add: validate_empty_required validate_nonempty_required)
  show "policy_validate_model_capabilities reg name (Some required) \<longleftrightarrow>
        validate_model_capabilities reg name required"
    by (simp add: policy_validate_model_capabilities_def validate_model_capabilities_def)
  show "policy_validate_model_capabilities reg name None"
    by (simp add: policy_validate_model_capabilities_def)
  show "validate_model_capabilities reg name []"
    by (rule validate_empty_required)
qed

theorem capability_validation_iff_witness:
  "validate_model_capabilities example_registry ''gpt-4o'' [''chat'', ''vision'']
   \<and> \<not> validate_model_capabilities example_registry ''gpt-4o-mini'' [''chat'', ''vision'']
   \<and> \<not> validate_model_capabilities example_registry ''claude-x'' [''chat'']
   \<and> policy_validate_model_capabilities example_registry ''gpt-4o'' (Some [''chat''])"
  using capability_validation_iff [of example_registry "''gpt-4o''" "[''chat'', ''vision'']"]
    capability_validation_iff [of example_registry "''gpt-4o-mini''" "[''chat'', ''vision'']"]
    capability_validation_iff [of example_registry "''claude-x''" "[''chat'']"]
    capability_validation_iff [of example_registry "''gpt-4o''" "[''chat'']"]
  by (simp add: example_defs get_model_def)

subsection \<open>The budget gate\<close>

lemma current_spend_example [simp]:
  "current_spend (budget_tracker example_manager) ''acme'' ''2026-11'' = 90"
  by (simp add: example_defs current_spend_def)

lemma check_budget_constraints_iff:
  "check_budget_constraints router now tenant policy override \<longleftrightarrow>
     \<not> automatic_downshift (budget_constraints policy) \<or>
     current_spend (budget_tracker (routing_policy_manager router)) tenant (year_month now)
       < or_float override (monthly_budget (budget_constraints policy))
           * cost_threshold (budget_constraints policy)"
  by (simp add: check_budget_constraints_def Let_def)

lemma policy_check_budget_constraints_eq:
  "policy_check_budget_constraints (routing_policy_manager router) now tenant policy override
   = check_budget_constraints router now tenant policy override"
  by (simp add: policy_check_budget_constraints_def check_budget_constraints_def)

lemma check_budget_without_downshift:
  "\<not> automatic_downshift (budget_constraints policy) \<Longrightarrow>
   check_budget_constraints router now tenant policy override"
  by (simp add: check_budget_constraints_def)

lemma or_float_nonzero: "v \<noteq> 0 \<Longrightarrow> or_float (Some v) b = v"
  by (simp add: or_float_def)

lemma or_float_zero: "or_float (Some 0) b = b"
  by (simp add: or_float_def)

lemma or_float_none: "or_float None b = b"
  by (simp add: or_float_def)

text \<open>
  Claim C3: the budget gate compares the month's spend with the override ceiling when one
  is supplied, and with the policy's ceiling otherwise, times the threshold. The source
  chooses the ceiling with \<^verbatim>\<open>budget_override or policy.budget_constraints.monthly_budget\<close>, so
  a supplied override of 0.0 is taken for an absent one. With a policy ceiling of 100, a
  threshold of 0.8 and 90 spent, an override ceiling of 200 opens the gate (90 < 160) and
  an override ceiling of 0, under which nothing is less than 0 * 0.8, opens it as the
  absent override does for a spend of 10.
\<close>

theorem zero_budget_override_is_ignored:
  "check_budget_constraints
     (example_router\<lparr>routing_policy_manager :=
        example_manager\<lparr>budget_tracker := [''acme'' \<mapsto> [''2026-11'' \<mapsto> 10]]\<rparr>\<rparr>)
     example_now ''acme'' example_policy (Some 0)
   \<and> \<not> ((10::real) < 0 * cost_threshold (budget_constraints example_policy))
   \<and> automatic_downshift (budget_constraints example_policy)"
  by (simp add: check_budget_constraints_def example_defs current_spend_def or_float_def)

subsection \<open>Recording spend\<close>

lemma record_usage_cost_policies: "policies (record_usage_cost pm now tenant amount) = policies pm"
  by (simp add: record_usage_cost_def Let_def)

lemma record_usage_cost_same:
  "current_spend (budget_tracker (record_usage_cost pm now tenant amount)) tenant (year_month now)
   = current_spend (budget_tracker pm) tenant (year_month now) + amount"
  by (simp add: record_usage_cost_def current_spend_def Let_def split: option.splits)

lemma record_usage_cost_other:
  "tenant' \<noteq> tenant \<or> month \<noteq> year_month now \<Longrightarrow>
   current_spend (budget_tracker (record_usage_cost pm now tenant amount)) tenant' month
   = current_spend (budget_tracker pm) tenant' month"
  by (auto simp: record_usage_cost_def current_spend_def Let_def split: option.splits)

text \<open>
  Claim C4, as stated: a negative amount is rejected and the ledger stays as it was. On
  the code, recording -4 for a tenant that has spent 90 leaves 86 on the ledger.
\<close>

theorem negative_spend_is_added_counterexample:
  "current_spend (budget_tracker example_manager) ''acme'' ''2026-11'' = 90
   \<and> current_spend
        (budget_tracker (record_usage_cost example_manager example_now ''acme'' (- 4)))
        ''acme'' ''2026-11'' = 86"
  by (simp add: record_usage_cost_def example_defs current_spend_def Let_def)

text \<open>
  Claim C4, amended. For every tenant and every amount, negative ones included,
  \<^verbatim>\<open>record_usage_cost\<close> signals nothing and adds the amount to the tenant's entry for the
  current month (taken as 0 when it is missing); the entries of other tenants and of
  other months, and the policies, stay as they were.
\<close>

theorem record_usage_cost_adds_amount:
  "current_spend (budget_tracker (record_usage_cost pm now tenant amount)) tenant (year_month now)
     = current_spend (budget_tracker pm) tenant (year_month now) + amount
   \<and> (tenant' \<noteq> tenant \<or> month \<noteq> year_month now \<longrightarrow>
        current_spend (budget_tracker (record_usage_cost pm now tenant amount)) tenant' month
        = current_spend (budget_tracker pm) tenant' month)
   \<and> policies (record_usage_cost pm now tenant amount) = policies pm"
  using record_usage_cost_same record_usage_cost_other record_usage_cost_policies
  by blast

theorem record_usage_cost_adds_amount_witness:
  "current_spend
     (budget_tracker (record_usage_cost example_manager example_now ''acme'' (- 4)))
     ''acme'' (year_month example_now) = 90 + (- 4)
   \<and> ''globex'' \<noteq> ''acme''
   \<and> current_spend
       (budget_tracker (record_usage_cost example_manager example_now ''acme'' (- 4)))
       ''globex'' ''2026-11''
     = current_spend (budget_tracker example_manager) ''globex'' ''2026-11''"
proof -
  have m: "year_month example_now = ''2026-11''"
    by (simp add: example_now_def)
  have d: "''globex'' \<noteq> ''acme''"
    by simp
  from record_usage_cost_adds_amount
    [of example_manager example_now "''acme''" "- 4" "''globex''" "''2026-11''"]
  show ?thesis
    using d by (simp add: m)
qed

subsection \<open>The cost estimate and the responses\<close>

lemma int_to_float_500: "int_to_float 500 = Inr 500"
  by (simp add: int_to_float_def float_overflow_bound_def)

lemma int_to_float_big: "int_to_float (2 ^ 1024) = Inl OverflowError"
  by (simp add: int_to_float_def float_overflow_bound_def)

lemma int_to_float_converts:
  "\<bar>n\<bar> < float_overflow_bound \<Longrightarrow> int_to_float n = Inr (of_int n)"
  by (simp add: int_to_float_def)

lemma int_to_float_overflows:
  "\<not> \<bar>n\<bar> < float_overflow_bound \<Longrightarrow> int_to_float n = Inl OverflowError"
  by (simp add: int_to_float_def)

lemma estimate_request_cost_absent:
  "get_model reg name = None \<Longrightarrow> estimate_request_cost reg name request = Inr 0"
  by (simp add: estimate_request_cost_def get_model_cost_estimate_def)

lemma estimate_request_cost_converts:
  "\<bar>or_int (context_length_estimate request) 1000\<bar> < float_overflow_bound \<Longrightarrow>
   \<exists>c. estimate_request_cost reg name request = Inr c"
  by (cases "get_model reg name")
     (simp_all add: estimate_request_cost_def get_model_cost_estimate_def
        int_to_float_converts int_to_float_500)

lemma estimate_request_cost_overflows:
  "get_model reg name = Some m \<Longrightarrow>
   \<not> \<bar>or_int (context_length_estimate request) 1000\<bar> < float_overflow_bound \<Longrightarrow>
   estimate_request_cost reg name request = Inl OverflowError"
  by (simp add: estimate_request_cost_def get_model_cost_estimate_def int_to_float_overflows)

lemma estimate_request_cost_raises:
  "estimate_request_cost reg name request = Inl e \<Longrightarrow>
   e = OverflowError
   \<and> \<not> \<bar>or_int (context_length_estimate request) 1000\<bar> < float_overflow_bound
   \<and> get_model reg name \<noteq> None"
  by (cases "get_model reg name";
      cases "\<bar>or_int (context_length_estimate request) 1000\<bar> < float_overflow_bound")
     (auto simp: estimate_request_cost_def get_model_cost_estimate_def
        int_to_float_converts int_to_float_overflows int_to_float_500)

lemma routing_response_fields:
  assumes "create_routing_response reg request name policy = Inr d"
  shows "selected_model d = name"
    and "fallback_used d = (name \<noteq> primary (model_selection_rules policy))"
    and "confidence_score d
           = (if name = primary (model_selection_rules policy) then 9 / 10 else 7 / 10)"
    and "routing_reason d
           = (if name = primary (model_selection_rules policy) then ''Primary model selected''
              else if Some name = budget_fallback (model_selection_rules policy)
              then ''Budget constraint - using cost-optimized model''
              else ''Primary model unavailable - using fallback'')"
    and "estimated_latency d = latency_or_unknown (get_model reg name)"
    and "estimate_request_cost reg name request = Inr (budget_impact d)"
  using assms
  by (auto simp: create_routing_response_def Let_def split: sum.splits)

lemma override_response_fields:
  assumes "create_override_response reg name request = Inr d"
  shows "selected_model d = name"
    and "fallback_used d = False"
    and "confidence_score d = 1"
    and "routing_reason d = ''User override''"
    and "estimated_latency d = latency_or_unknown (get_model reg name)"
    and "estimate_request_cost reg name request = Inr (budget_impact d)"
  using assms
  by (auto simp: create_override_response_def split: sum.splits)

lemma error_response_fields:
  "selected_model (create_error_response msg) = []"
  "fallback_used (create_error_response msg) = False"
  "confidence_score (create_error_response msg) = 0"
  "routing_reason (create_error_response msg) = msg"
  "estimated_latency (create_error_response msg) = ''unknown''"
  "budget_impact (create_error_response msg) = 0"
  by (simp_all add: create_error_response_def)

lemma create_routing_response_returns:
  "estimate_request_cost reg name request = Inr c \<Longrightarrow>
   \<exists>d. create_routing_response reg request name policy = Inr d"
  by (simp add: create_routing_response_def Let_def)

lemma create_routing_response_raises:
  "create_routing_response reg request name policy = Inl e \<longleftrightarrow>
   estimate_request_cost reg name request = Inl e"
  by (simp add: create_routing_response_def Let_def split: sum.splits)

lemma create_override_response_returns:
  "estimate_request_cost reg name request = Inr c \<Longrightarrow>
   \<exists>d. create_override_response reg name request = Inr d"
  by (simp add: create_override_response_def)

lemma create_override_response_raises:
  "create_override_response reg name request = Inl e \<longleftrightarrow>
   estimate_request_cost reg name request = Inl e"
  by (simp add: create_override_response_def split: sum.splits)

subsection \<open>The shape of a routing decision\<close>

lemmas route_defs = route_request_def override_accepted_def route_by_policy_def resolve_policy_def
  get_policy_def get_default_policy_def
  policy_key_def select_optimal_model_def select_quality_priority_model_def select_cost_optimized_model_def
  check_budget_constraints_def current_spend_def or_float_def or_int_def
  validate_user_override_def validate_model_capabilities_def check_performance_requirements_def
  meets_latency_requirement_def latency_level_def get_model_def
  create_routing_response_def create_override_response_def create_error_response_def
  estimate_request_cost_def get_model_cost_estimate_def int_to_float_def float_overflow_bound_def
  latency_or_unknown_def update_usage_tracking_def truthy_str_def Let_def

lemma route_override:
  "override_accepted router request \<Longrightarrow>
   route_request router now request
     = (case create_override_response (model_registry router) (the (user_override request))
               request of
          Inl e \<Rightarrow> Inl e
        | Inr response \<Rightarrow> Inr (response, router))"
  by (simp add: route_request_def)

lemma route_rejected_override:
  "\<not> override_accepted router request \<Longrightarrow>
   route_request router now request = route_by_policy router now request"
  by (simp add: route_request_def)

lemma override_accepted_name:
  "override_accepted router request \<Longrightarrow> the (user_override request) \<noteq> []"
  by (auto simp: override_accepted_def split: option.splits)

lemma override_accepted_iff:
  "override_accepted router request \<longleftrightarrow>
     (\<exists>name. user_override request = Some name \<and> name \<noteq> []
        \<and> validate_model_capabilities (model_registry router) name
             (required_capabilities request))"
  by (simp add: override_accepted_def validate_user_override_def split: option.splits)

lemma check_performance_ignores_override:
  "check_performance_requirements reg name (request\<lparr>user_override := v\<rparr>)
   = check_performance_requirements reg name request"
  by (cases "get_model reg name") (simp_all add: check_performance_requirements_def)

lemma select_quality_ignores_override:
  "select_quality_priority_model reg (request\<lparr>user_override := v\<rparr>) policy
   = select_quality_priority_model reg request policy"
  by (simp add: select_quality_priority_model_def check_performance_ignores_override Let_def)

lemma select_cost_ignores_override:
  "select_cost_optimized_model reg (request\<lparr>user_override := v\<rparr>) policy
   = select_cost_optimized_model reg request policy"
  by (simp add: select_cost_optimized_model_def check_performance_ignores_override Let_def)

lemma select_optimal_model_ignores_override:
  "select_optimal_model router now (request\<lparr>user_override := v\<rparr>) policy
   = select_optimal_model router now request policy"
  by (simp add: select_optimal_model_def select_quality_ignores_override
      select_cost_ignores_override Let_def)

lemma create_routing_response_ignores_override:
  "create_routing_response reg (request\<lparr>user_override := v\<rparr>) selected policy
   = create_routing_response reg request selected policy"
  by (simp add: create_routing_response_def estimate_request_cost_def Let_def)

lemma route_by_policy_ignores_override:
  "route_by_policy router now (request\<lparr>user_override := v\<rparr>) = route_by_policy router now request"
  by (simp add: route_by_policy_def resolve_policy_def select_optimal_model_ignores_override
      create_routing_response_ignores_override split: option.splits sum.splits)

lemma route_without_override:
  "route_request router now (request\<lparr>user_override := None\<rparr>) = route_by_policy router now request"
  by (simp add: route_request_def override_accepted_def route_by_policy_ignores_override)

lemma route_no_policy:
  "\<not> override_accepted router request \<Longrightarrow>
   resolve_policy (routing_policy_manager router) request = None \<Longrightarrow>
   route_request router now request
     = Inr (create_error_response ''No routing policy found'', router)"
  by (simp add: route_rejected_override route_by_policy_def)

lemma route_no_model:
  "\<not> override_accepted router request \<Longrightarrow>
   resolve_policy (routing_policy_manager router) request = Some policy \<Longrightarrow>
   select_optimal_model router now request policy = None
     \<or> select_optimal_model router now request policy = Some [] \<Longrightarrow>
   route_request router now request
     = Inr (create_error_response ''No suitable model available'', router)"
  by (auto simp: route_rejected_override route_by_policy_def)

lemma route_selected:
  "\<not> override_accepted router request \<Longrightarrow>
   resolve_policy (routing_policy_manager router) request = Some policy \<Longrightarrow>
   select_optimal_model router now request policy = Some name \<Longrightarrow> name \<noteq> [] \<Longrightarrow>
   route_request router now request
     = (case create_routing_response (model_registry router) request name policy of
          Inl e \<Rightarrow> Inl e
        | Inr response \<Rightarrow>
            Inr (response, update_usage_tracking router now (tenant_id request) name))"
  by (simp add: route_rejected_override route_by_policy_def)

lemma route_request_cases:
  obtains (override)
      "override_accepted router request"
      "route_request router now request
         = (case create_override_response (model_registry router)
                   (the (user_override request)) request of
              Inl e \<Rightarrow> Inl e
            | Inr response \<Rightarrow> Inr (response, router))"
  | (no_policy)
      "\<not> override_accepted router request"
      "resolve_policy (routing_policy_manager router) request = None"
      "route_request router now request
         = Inr (create_error_response ''No routing policy found'', router)"
  | (no_model) policy where
      "\<not> override_accepted router request"
      "resolve_policy (routing_policy_manager router) request = Some policy"
      "select_optimal_model router now request policy = None
       \<or> select_optimal_model router now request policy = Some []"
      "route_request router now request
         = Inr (create_error_response ''No suitable model available'', router)"
  | (selected) policy name where
      "\<not> override_accepted router request"
      "resolve_policy (routing_policy_manager router) request = Some policy"
      "select_optimal_model router now request policy = Some name" "name \<noteq> []"
      "route_request router now request
         = (case create_routing_response (model_registry router) request name policy of
              Inl e \<Rightarrow> Inl e
            | Inr response \<Rightarrow>
                Inr (response, update_usage_tracking router now (tenant_id request) name))"
proof (cases "override_accepted router request")
  case True
  then show ?thesis
    using override route_override by blast
next
  case False
  note rejected = this
  show ?thesis
  proof (cases "resolve_policy (routing_policy_manager router) request")
    case None
    with rejected show ?thesis
      using no_policy route_no_policy by blast
  next
    case (Some policy)
    note pol = this
    show ?thesis
    proof (cases "select_optimal_model router now request policy")
      case None
      with rejected pol show ?thesis
        using no_model [of policy] route_no_model [of router request policy now] by blast
    next
      case (Some name)
      note sel = this
      show ?thesis
      proof (cases "name = []")
        case True
        with rejected pol sel show ?thesis
          using no_model [of policy] route_no_model [of router request policy now] by blast
      next
        case False
        with rejected pol sel show ?thesis
          using selected [of policy name] route_selected [of router request policy now name]
          by blast
      qed
    qed
  qed
qed

text \<open>When \<open>route_request\<close> returns and when it raises.\<close>

lemma route_request_returns:
  assumes "\<bar>or_int (context_length_estimate request) 1000\<bar> < float_overflow_bound"
  shows "\<exists>d router'. route_request router now request = Inr (d, router')"
proof (cases rule: route_request_cases [of router request now])
  case override
  obtain c where "estimate_request_cost (model_registry router) (the (user_override request))
      request = Inr c"
    using estimate_request_cost_converts [OF assms] by blast
  then obtain d where "create_override_response (model_registry router)
      (the (user_override request)) request = Inr d"
    using create_override_response_returns by blast
  with override show ?thesis by simp
next
  case no_policy
  then show ?thesis by simp
next
  case (no_model policy)
  then show ?thesis by simp
next
  case (selected policy name)
  obtain c where "estimate_request_cost (model_registry router) name request = Inr c"
    using estimate_request_cost_converts [OF assms] by blast
  then obtain d where "create_routing_response (model_registry router) request name policy
      = Inr d"
    using create_routing_response_returns by blast
  with selected show ?thesis by simp
qed

lemma route_request_raises:
  assumes "route_request router now request = Inl e"
  shows "e = OverflowError
         \<and> \<not> \<bar>or_int (context_length_estimate request) 1000\<bar> < float_overflow_bound"
proof (cases rule: route_request_cases [of router request now])
  case override
  with assms have "create_override_response (model_registry router)
      (the (user_override request)) request = Inl e"
    by (simp split: sum.splits)
  then show ?thesis
    using create_override_response_raises estimate_request_cost_raises by blast
next
  case no_policy
  with assms show ?thesis by simp
next
  case (no_model policy)
  with assms show ?thesis by simp
next
  case (selected policy name)
  with assms have "create_routing_response (model_registry router) request name policy = Inl e"
    by (simp split: sum.splits)
  then show ?thesis
    using create_routing_response_raises estimate_request_cost_raises by blast
qed

lemma route_request_decision_cases:
  assumes "route_request router now request = Inr (d, router')"
  obtains (override)
      "override_accepted router request" "router' = router"
      "create_override_response (model_registry router) (the (user_override request)) request
         = Inr d"
  | (failure) msg where
      "\<not> override_accepted router request" "router' = router"
      "d = create_error_response msg"
      "msg = ''No routing policy found'' \<or> msg = ''No suitable model available''"
  | (selected) policy name where
      "\<not> override_accepted router request"
      "resolve_policy (routing_policy_manager router) request = Some policy"
      "select_optimal_model router now request policy = Some name" "name \<noteq> []"
      "create_routing_response (model_registry router) request name policy = Inr d"
      "router' = update_usage_tracking router now (tenant_id request) name"
proof (cases rule: route_request_cases [of router request now])
  case override
  have "create_override_response (model_registry router) (the (user_override request)) request
          = Inr d \<and> router' = router"
    using assms override(2)
    by (cases "create_override_response (model_registry router) (the (user_override request))
          request") simp_all
  with override(1) show ?thesis
    using that(1) by blast
next
  case no_policy
  with assms have "d = create_error_response ''No routing policy found'' \<and> router' = router"
    by simp
  with no_policy(1) show ?thesis
    using that(2) [of "''No routing policy found''"] by blast
next
  case (no_model policy)
  with assms have "d = create_error_response ''No suitable model available'' \<and> router' = router"
    by simp
  with no_model(1) show ?thesis
    using that(2) [of "''No suitable model available''"] by blast
next
  case (selected policy name)
  have "create_routing_response (model_registry router) request name policy = Inr d
        \<and> router' = update_usage_tracking router now (tenant_id request) name"
    using assms selected(5)
    by (cases "create_routing_response (model_registry router) request name policy") simp_all
  with selected(1-4) show ?thesis
    using that(3) [of policy name] by blast
qed

lemma select_optimal_model_budget_fallback:
  assumes "\<not> check_budget_constraints router now (tenant_id request) policy (budget_override request)"
    and "budget_fallback (model_selection_rules policy) = Some bf" and "bf \<noteq> []"
    and "validate_model_capabilities (model_registry router) bf (required_capabilities request)"
  shows "select_optimal_model router now request policy = Some bf"
  using assms by (simp add: select_optimal_model_def truthy_str_def Let_def)

subsection \<open>Budget fallback, fallback flag and confidence\<close>

text \<open>
  The reasons of the specification are the strings of the source: "user\_override" is
  \<^verbatim>\<open>"User override"\<close>, "budget\_fallback" is
  \<^verbatim>\<open>"Budget constraint - using cost-optimized model"\<close>, "no\_policy" is
  \<^verbatim>\<open>"No routing policy found"\<close> and "no\_suitable\_model" is
  \<^verbatim>\<open>"No suitable model available"\<close>.

  Claim C2, as stated: every request whose policy fails the budget gate and whose budget
  fallback validates is routed to that budget fallback, and in every decision the
  fallback flag equals (selected deployment differs from the primary). In the example,
  acme has spent 90 of 100 with a threshold of 0.8, and the budget fallback gpt-35-turbo
  validates; a request that names the valid override gpt-4o-mini is routed to the
  override, with the fallback flag unset although gpt-4o-mini is not the primary.
\<close>

theorem override_precedes_budget_fallback_counterexample:
  "\<not> check_budget_constraints example_router example_now ''acme'' example_policy None
   \<and> validate_model_capabilities example_registry ''gpt-35-turbo'' [''chat'']
   \<and> route_request example_router example_now
         (example_request\<lparr>user_override := Some ''gpt-4o-mini''\<rparr>)
       = Inr (\<lparr>selected_model = ''gpt-4o-mini'', routing_reason = ''User override'',
               fallback_used = False, budget_impact = 1 / 40, estimated_latency = ''low'',
               confidence_score = 1\<rparr>, example_router)
   \<and> ''gpt-4o-mini'' \<noteq> primary (model_selection_rules example_policy)"
  by (simp add: route_defs example_defs)

text \<open>
  Claim C2, amended. For every request without an accepted user override whose policy
  fails the budget gate and whose budget fallback is set and passes capability
  validation, the budget fallback is selected whatever the quality or cost preference
  is, and \<open>route_request\<close> ends as the construction of the response for it ends: it
  returns a decision when the input-token estimate converts to a float, and every
  decision it returns names the budget fallback, with the fallback flag (budget fallback
  differs from the primary) and, when it differs, the budget reason and confidence 0.7.
  For every returned decision: one selected from a policy has the fallback flag
  (selected differs from the primary) and confidence 0.9 for the primary and 0.7
  otherwise; a user override has the flag unset and confidence 1.0; a failure has the
  flag unset and confidence 0.0.
\<close>

theorem budget_fallback_and_confidence:
  "(\<not> override_accepted router request
    \<and> resolve_policy (routing_policy_manager router) request = Some policy
    \<and> \<not> check_budget_constraints router now (tenant_id request) policy (budget_override request)
    \<and> budget_fallback (model_selection_rules policy) = Some bf \<and> bf \<noteq> []
    \<and> validate_model_capabilities (model_registry router) bf (required_capabilities request)
    \<longrightarrow> select_optimal_model router now request policy = Some bf
      \<and> route_request router now request
          = (case create_routing_response (model_registry router) request bf policy of
               Inl e \<Rightarrow> Inl e
             | Inr response \<Rightarrow>
                 Inr (response, update_usage_tracking router now (tenant_id request) bf))
      \<and> (\<bar>or_int (context_length_estimate request) 1000\<bar> < float_overflow_bound \<longrightarrow>
           (\<exists>response. route_request router now request
              = Inr (response, update_usage_tracking router now (tenant_id request) bf)))
      \<and> (route_request router now request = Inr (d, router') \<longrightarrow>
           selected_model d = bf
           \<and> fallback_used d = (bf \<noteq> primary (model_selection_rules policy))
           \<and> (bf \<noteq> primary (model_selection_rules policy) \<longrightarrow>
                routing_reason d = ''Budget constraint - using cost-optimized model''
                \<and> confidence_score d = 7 / 10)))
   \<and> (route_request router now request = Inr (d, router') \<longrightarrow>
        (override_accepted router request \<longrightarrow>
           fallback_used d = False \<and> confidence_score d = 1)
        \<and> (\<not> override_accepted router request
            \<and> resolve_policy (routing_policy_manager router) request = Some policy
            \<and> selected_model d \<noteq> [] \<longrightarrow>
             fallback_used d = (selected_model d \<noteq> primary (model_selection_rules policy))
             \<and> confidence_score d
                 = (if selected_model d = primary (model_selection_rules policy)
                    then 9 / 10 else 7 / 10))
        \<and> (selected_model d = [] \<longrightarrow> fallback_used d = False \<and> confidence_score d = 0))"
proof (intro conjI impI)
  assume a: "\<not> override_accepted router request
    \<and> resolve_policy (routing_policy_manager router) request = Some policy
    \<and> \<not> check_budget_constraints router now (tenant_id request) policy (budget_override request)
    \<and> budget_fallback (model_selection_rules policy) = Some bf \<and> bf \<noteq> []
    \<and> validate_model_capabilities (model_registry router) bf (required_capabilities request)"
  then have sel: "select_optimal_model router now request policy = Some bf"
    by (simp add: select_optimal_model_budget_fallback)
  then show "select_optimal_model router now request policy = Some bf" .
  from a sel show r: "route_request router now request
          = (case create_routing_response (model_registry router) request bf policy of
               Inl e \<Rightarrow> Inl e
             | Inr response \<Rightarrow>
                 Inr (response, update_usage_tracking router now (tenant_id request) bf))"
    by (simp add: route_selected)
  {
    assume "\<bar>or_int (context_length_estimate request) 1000\<bar> < float_overflow_bound"
    then obtain c where "estimate_request_cost (model_registry router) bf request = Inr c"
      using estimate_request_cost_converts by blast
    then obtain response where
      "create_routing_response (model_registry router) request bf policy = Inr response"
      using create_routing_response_returns by blast
    with r show "\<exists>response. route_request router now request
              = Inr (response, update_usage_tracking router now (tenant_id request) bf)"
      by simp
  }
  {
    assume "route_request router now request = Inr (d, router')"
    with r have c: "create_routing_response (model_registry router) request bf policy = Inr d"
      by (cases "create_routing_response (model_registry router) request bf policy") simp_all
    show "selected_model d = bf"
      and "fallback_used d = (bf \<noteq> primary (model_selection_rules policy))"
      using routing_response_fields(1,2) [OF c] by simp_all
    assume "bf \<noteq> primary (model_selection_rules policy)"
    with a show "routing_reason d = ''Budget constraint - using cost-optimized model''"
      and "confidence_score d = 7 / 10"
      using routing_response_fields(3,4) [OF c] by simp_all
  }
next
  assume rr: "route_request router now request = Inr (d, router')"
    and "override_accepted router request"
  then show "fallback_used d = False" and "confidence_score d = 1"
    by (cases rule: route_request_decision_cases [OF rr];
        simp add: override_response_fields)+
next
  assume rr: "route_request router now request = Inr (d, router')"
    and a: "\<not> override_accepted router request
            \<and> resolve_policy (routing_policy_manager router) request = Some policy
            \<and> selected_model d \<noteq> []"
  have "\<exists>name. create_routing_response (model_registry router) request name policy = Inr d"
    using rr
  proof (cases rule: route_request_decision_cases)
    case override
    with a show ?thesis by simp
  next
    case (failure msg)
    with a show ?thesis by (simp add: error_response_fields)
  next
    case (selected policy' name)
    with a show ?thesis by auto
  qed
  then obtain name where
    c: "create_routing_response (model_registry router) request name policy = Inr d"
    by blast
  show "fallback_used d = (selected_model d \<noteq> primary (model_selection_rules policy))"
    and "confidence_score d
                 = (if selected_model d = primary (model_selection_rules policy)
                    then 9 / 10 else 7 / 10)"
    using routing_response_fields(1-3) [OF c] by simp_all
next
  assume rr: "route_request router now request = Inr (d, router')"
    and e: "selected_model d = []"
  have "\<exists>msg. d = create_error_response msg"
    using rr
  proof (cases rule: route_request_decision_cases)
    case override
    with e show ?thesis
      using override_accepted_name [of router request] override_response_fields(1) by fastforce
  next
    case (failure msg)
    then show ?thesis by blast
  next
    case (selected policy' name)
    with e show ?thesis
      using routing_response_fields(1) by fastforce
  qed
  then show "fallback_used d = False" and "confidence_score d = 0"
    by (auto simp: error_response_fields)
qed

theorem budget_fallback_and_confidence_witness:
  "\<not> override_accepted example_router example_request
   \<and> resolve_policy (routing_policy_manager example_router) example_request = Some example_policy
   \<and> \<not> check_budget_constraints example_router example_now ''acme'' example_policy None
   \<and> validate_model_capabilities example_registry ''gpt-35-turbo'' [''chat'']
   \<and> \<bar>or_int (context_length_estimate example_request) 1000\<bar> < float_overflow_bound
   \<and> route_request example_router example_now example_request
       = Inr (\<lparr>selected_model = ''gpt-35-turbo'',
               routing_reason = ''Budget constraint - using cost-optimized model'',
               fallback_used = True, budget_impact = 1 / 40, estimated_latency = ''high'',
               confidence_score = 7 / 10\<rparr>,
              update_usage_tracking example_router example_now ''acme'' ''gpt-35-turbo'')"
proof -
  have 1: "\<not> override_accepted example_router example_request"
    by (simp add: override_accepted_def example_defs)
  have 2: "resolve_policy (routing_policy_manager example_router) example_request
             = Some example_policy"
    by (simp add: resolve_policy_def get_policy_def example_router_def example_manager_def
        example_request_def)
  have 3: "\<not> check_budget_constraints example_router example_now (tenant_id example_request)
               example_policy (budget_override example_request)"
    by (simp add: check_budget_constraints_def example_defs current_spend_def or_float_def)
  have 4: "budget_fallback (model_selection_rules example_policy) = Some ''gpt-35-turbo''"
    and 5: "''gpt-35-turbo'' \<noteq> primary (model_selection_rules example_policy)"
    by (simp_all add: example_policy_def)
  have 6: "validate_model_capabilities (model_registry example_router) ''gpt-35-turbo''
             (required_capabilities example_request)"
    by (simp add: validate_model_capabilities_def get_model_def example_defs)
  have 7: "\<bar>or_int (context_length_estimate example_request) 1000\<bar> < float_overflow_bound"
    by (simp add: or_int_def example_request_def float_overflow_bound_def)
  have t: "tenant_id example_request = ''acme''" "budget_override example_request = None"
    "required_capabilities example_request = [''chat'']"
    "model_registry example_router = example_registry"
    by (simp_all add: example_request_def example_router_def)
  have c: "create_routing_response example_registry example_request ''gpt-35-turbo'' example_policy
     = Inr \<lparr>selected_model = ''gpt-35-turbo'',
               routing_reason = ''Budget constraint - using cost-optimized model'',
               fallback_used = True, budget_impact = 1 / 40, estimated_latency = ''high'',
               confidence_score = 7 / 10\<rparr>"
    by (simp add: route_defs example_defs)
  note T = budget_fallback_and_confidence
    [of example_router example_request example_policy example_now "''gpt-35-turbo''"]
  have r: "route_request example_router example_now example_request
          = (case create_routing_response (model_registry example_router) example_request
                    ''gpt-35-turbo'' example_policy of
               Inl e \<Rightarrow> Inl e
             | Inr response \<Rightarrow>
                 Inr (response, update_usage_tracking example_router example_now
                        (tenant_id example_request) ''gpt-35-turbo''))"
    using T 1 2 3 4 6 by blast
  from 1 2 3 6 7 r c show ?thesis
    by (simp add: t)
qed

subsection \<open>User override\<close>

lemma route_by_policy_reason:
  "route_by_policy router now request = Inr (d, router') \<Longrightarrow>
   routing_reason d \<noteq> ''User override''"
  by (auto simp: route_by_policy_def create_error_response_def create_routing_response_def
      Let_def split: option.splits sum.splits if_splits)

text \<open>
  Claim C7, as stated: an override that names a deployment missing from the Directory is
  discarded and the reason of the decision is not the override one. On the code this
  fails for a request without required capabilities: claude-x is not in the Directory,
  and the decision is the override.
\<close>

theorem override_of_unknown_deployment_counterexample:
  "get_model example_registry ''claude-x'' = None
   \<and> route_request example_router example_now
        (example_request\<lparr>required_capabilities := [], user_override := Some ''claude-x''\<rparr>)
       = Inr (\<lparr>selected_model = ''claude-x'', routing_reason = ''User override'',
               fallback_used = False, budget_impact = 0, estimated_latency = ''unknown'',
               confidence_score = 1\<rparr>, example_router)"
  by (simp add: route_defs example_defs)

text \<open>
  Claim C7, amended. An override is accepted when it is set, not empty and passes
  capability validation. For an accepted override \<open>route_request\<close> ends as the
  construction of the override response ends: it returns a decision when the
  input-token estimate converts to a float or the deployment is not in the Directory,
  and every decision it returns is the override, with the reason "User override", the
  fallback flag unset, confidence 1.0 and the router unchanged. An override that is not
  accepted is discarded: the result is the one of the same request without an override,
  a decision it returns has another reason, and the request fails only if it fails
  without the override. An override that names a deployment missing from the Directory
  is accepted exactly when it is not empty and the request requires no capability; so
  it is discarded whenever the request requires at least one.
\<close>

theorem user_override_handling:
  "(override_accepted router request \<longleftrightarrow>
      (\<exists>name. user_override request = Some name \<and> name \<noteq> []
         \<and> validate_model_capabilities (model_registry router) name
              (required_capabilities request)))
   \<and> (override_accepted router request \<longrightarrow>
        route_request router now request
          = (case create_override_response (model_registry router)
                    (the (user_override request)) request of
               Inl e \<Rightarrow> Inl e
             | Inr response \<Rightarrow> Inr (response, router))
        \<and> (\<bar>or_int (context_length_estimate request) 1000\<bar> < float_overflow_bound
            \<or> get_model (model_registry router) (the (user_override request)) = None \<longrightarrow>
             (\<exists>response. route_request router now request = Inr (response, router)))
        \<and> (route_request router now request = Inr (d, router') \<longrightarrow>
             router' = router
             \<and> selected_model d = the (user_override request)
             \<and> routing_reason d = ''User override''
             \<and> fallback_used d = False
             \<and> confidence_score d = 1))
   \<and> (\<not> override_accepted router request \<longrightarrow>
        route_request router now request
          = route_request router now (request\<lparr>user_override := None\<rparr>)
        \<and> (route_request router now request = Inr (d, router') \<longrightarrow>
             routing_reason d \<noteq> ''User override''))
   \<and> (user_override request = Some name \<and> get_model (model_registry router) name = None \<longrightarrow>
        (override_accepted router request \<longleftrightarrow> name \<noteq> [] \<and> required_capabilities request = []))"
proof (intro conjI impI)
  show "override_accepted router request \<longleftrightarrow>
      (\<exists>name. user_override request = Some name \<and> name \<noteq> []
         \<and> validate_model_capabilities (model_registry router) name
              (required_capabilities request))"
    by (rule override_accepted_iff)
next
  assume acc: "override_accepted router request"
  then show r: "route_request router now request
          = (case create_override_response (model_registry router)
                    (the (user_override request)) request of
               Inl e \<Rightarrow> Inl e
             | Inr response \<Rightarrow> Inr (response, router))"
    by (rule route_override)
  {
    assume "\<bar>or_int (context_length_estimate request) 1000\<bar> < float_overflow_bound
            \<or> get_model (model_registry router) (the (user_override request)) = None"
    then obtain c where "estimate_request_cost (model_registry router)
        (the (user_override request)) request = Inr c"
      using estimate_request_cost_converts estimate_request_cost_absent by blast
    then obtain response where "create_override_response (model_registry router)
        (the (user_override request)) request = Inr response"
      using create_override_response_returns by blast
    with r show "\<exists>response. route_request router now request = Inr (response, router)"
      by simp
  }
  {
    assume "route_request router now request = Inr (d, router')"
    with r have c: "create_override_response (model_registry router)
        (the (user_override request)) request = Inr d \<and> router' = router"
      by (cases "create_override_response (model_registry router)
        (the (user_override request)) request") simp_all
    then show "router' = router"
      and "selected_model d = the (user_override request)"
      and "routing_reason d = ''User override''"
      and "fallback_used d = False"
      and "confidence_score d = 1"
      using override_response_fields(1-4) [of "model_registry router"
          "the (user_override request)" request d]
      by simp_all
  }
next
  assume rej: "\<not> override_accepted router request"
  then have r: "route_request router now request = route_by_policy router now request"
    by (rule route_rejected_override)
  show "route_request router now request
          = route_request router now (request\<lparr>user_override := None\<rparr>)"
    by (simp add: r route_without_override)
  assume "route_request router now request = Inr (d, router')"
  then show "routing_reason d \<noteq> ''User override''"
    using r route_by_policy_reason by simp
next
  assume "user_override request = Some name \<and> get_model (model_registry router) name = None"
  then show "override_accepted router request \<longleftrightarrow> name \<noteq> [] \<and> required_capabilities request = []"
    by (simp add: override_accepted_def validate_user_override_def validate_unknown_deployment)
qed

theorem user_override_handling_witness:
  "override_accepted example_router (example_request\<lparr>user_override := Some ''gpt-4o-mini''\<rparr>)
   \<and> route_request example_router example_now
        (example_request\<lparr>user_override := Some ''gpt-4o-mini''\<rparr>)
       = Inr (\<lparr>selected_model = ''gpt-4o-mini'', routing_reason = ''User override'',
               fallback_used = False, budget_impact = 1 / 40, estimated_latency = ''low'',
               confidence_score = 1\<rparr>, example_router)
   \<and> get_model (model_registry example_router) ''claude-x'' = None
   \<and> \<not> override_accepted example_router (example_request\<lparr>user_override := Some ''claude-x''\<rparr>)
   \<and> route_request example_router example_now (example_request\<lparr>user_override := Some ''claude-x''\<rparr>)
       = route_request example_router example_now example_request"
proof -
  have a: "override_accepted example_router (example_request\<lparr>user_override := Some ''gpt-4o-mini''\<rparr>)"
    by (simp add: override_accepted_def validate_user_override_def validate_model_capabilities_def
        get_model_def example_defs)
  have g: "get_model (model_registry example_router) ''claude-x'' = None"
    by (simp add: get_model_def example_defs)
  have u: "user_override (example_request\<lparr>user_override := Some ''claude-x''\<rparr>) = Some ''claude-x''"
    "example_request\<lparr>user_override := Some ''claude-x'', user_override := None\<rparr> = example_request"
    by (simp_all add: example_request_def)
  have c: "required_capabilities (example_request\<lparr>user_override := Some ''claude-x''\<rparr>) \<noteq> []"
    by (simp add: example_request_def)
  have o: "create_override_response (model_registry example_router) ''gpt-4o-mini''
      (example_request\<lparr>user_override := Some ''gpt-4o-mini''\<rparr>)
     = Inr \<lparr>selected_model = ''gpt-4o-mini'', routing_reason = ''User override'',
               fallback_used = False, budget_impact = 1 / 40, estimated_latency = ''low'',
               confidence_score = 1\<rparr>"
    by (simp add: route_defs example_defs)
  note A = user_override_handling
    [of example_router "example_request\<lparr>user_override := Some ''gpt-4o-mini''\<rparr>" example_now]
  note B = user_override_handling
    [of example_router "example_request\<lparr>user_override := Some ''claude-x''\<rparr>" example_now
      _ _ "''claude-x''"]
  have r: "route_request example_router example_now
        (example_request\<lparr>user_override := Some ''gpt-4o-mini''\<rparr>)
       = (case create_override_response (model_registry example_router)
            (the (user_override (example_request\<lparr>user_override := Some ''gpt-4o-mini''\<rparr>)))
            (example_request\<lparr>user_override := Some ''gpt-4o-mini''\<rparr>) of
               Inl e \<Rightarrow> Inl e
             | Inr response \<Rightarrow> Inr (response, example_router))"
    using A a by blast
  have n: "\<not> override_accepted example_router (example_request\<lparr>user_override := Some ''claude-x''\<rparr>)"
    using B g c u(1) by blast
  have e: "route_request example_router example_now (example_request\<lparr>user_override := Some ''claude-x''\<rparr>)
       = route_request example_router example_now
           (example_request\<lparr>user_override := Some ''claude-x'', user_override := None\<rparr>)"
    using B n by blast
  from a g n show ?thesis
    by (simp add: r o e u(2))
qed

subsection \<open>Decisions and exceptions\<close>

lemma select_optimal_model_no_candidate:
  assumes "\<not> validate_model_capabilities (model_registry router)
             (primary (model_selection_rules policy)) (required_capabilities request)"
    and "truthy_str (fallback (model_selection_rules policy)) \<Longrightarrow>
         \<not> validate_model_capabilities (model_registry router)
             (the (fallback (model_selection_rules policy))) (required_capabilities request)"
    and "truthy_str (budget_fallback (model_selection_rules policy)) \<Longrightarrow>
         \<not> validate_model_capabilities (model_registry router)
             (the (budget_fallback (model_selection_rules policy))) (required_capabilities request)"
  shows "select_optimal_model router now request policy = None"
proof -
  have f: "\<not> truthy_str (fallback (model_selection_rules policy))
           \<or> \<not> validate_model_capabilities (model_registry router)
                 (the (fallback (model_selection_rules policy))) (required_capabilities request)"
    using assms(2) by blast
  have b: "\<not> truthy_str (budget_fallback (model_selection_rules policy))
           \<or> \<not> validate_model_capabilities (model_registry router)
                 (the (budget_fallback (model_selection_rules policy)))
                 (required_capabilities request)"
    using assms(3) by blast
  have q: "select_quality_priority_model (model_registry router) request policy = None"
    using assms(1) f b by (auto simp: select_quality_priority_model_def Let_def)
  have c: "select_cost_optimized_model (model_registry router) request policy = None"
    using assms(1) f b by (auto simp: select_cost_optimized_model_def Let_def)
  show ?thesis
    using b by (auto simp: select_optimal_model_def Let_def q c)
qed

lemma route_no_candidate:
  assumes "\<not> override_accepted router request"
    and "resolve_policy (routing_policy_manager router) request = Some policy"
    and "\<not> validate_model_capabilities (model_registry router)
             (primary (model_selection_rules policy)) (required_capabilities request)"
    and "truthy_str (fallback (model_selection_rules policy)) \<longrightarrow>
            \<not> validate_model_capabilities (model_registry router)
                (the (fallback (model_selection_rules policy))) (required_capabilities request)"
    and "truthy_str (budget_fallback (model_selection_rules policy)) \<longrightarrow>
            \<not> validate_model_capabilities (model_registry router)
                (the (budget_fallback (model_selection_rules policy)))
                (required_capabilities request)"
  shows "route_request router now request
          = Inr (create_error_response ''No suitable model available'', router)"
proof -
  have "select_optimal_model router now request policy = None"
  proof (rule select_optimal_model_no_candidate)
    show "\<not> validate_model_capabilities (model_registry router)
             (primary (model_selection_rules policy)) (required_capabilities request)"
      by (rule assms(3))
    show "truthy_str (fallback (model_selection_rules policy)) \<Longrightarrow>
         \<not> validate_model_capabilities (model_registry router)
             (the (fallback (model_selection_rules policy))) (required_capabilities request)"
      using assms(4) by blast
    show "truthy_str (budget_fallback (model_selection_rules policy)) \<Longrightarrow>
         \<not> validate_model_capabilities (model_registry router)
             (the (budget_fallback (model_selection_rules policy))) (required_capabilities request)"
      using assms(5) by blast
  qed
  then show ?thesis
    using assms(1,2) route_no_model by blast
qed

lemma route_selected_empty_iff:
  assumes "route_request router now request = Inr (d, router')"
  shows "selected_model d = [] \<longleftrightarrow> confidence_score d = 0"
  using assms
proof (cases rule: route_request_decision_cases)
  case override
  then show ?thesis
    using override_accepted_name [of router request]
      override_response_fields(1,3) [of "model_registry router" "the (user_override request)"
        request d]
    by simp
next
  case (failure msg)
  then show ?thesis by (simp add: error_response_fields)
next
  case (selected policy name)
  then show ?thesis
    using routing_response_fields(1,3) [of "model_registry router" request name policy d]
    by simp
qed

lemma route_absent_deployment:
  assumes "route_request router now request = Inr (d, router')"
    and "get_model (model_registry router) (selected_model d) = None"
  shows "estimated_latency d = ''unknown'' \<and> budget_impact d = 0"
  using assms(1)
proof (cases rule: route_request_decision_cases)
  case override
  note f = override_response_fields [OF override(3)]
  from assms(2) f(1) have g: "get_model (model_registry router) (the (user_override request)) = None"
    by simp
  from f(5,6) g show ?thesis
    by (simp add: latency_or_unknown_def estimate_request_cost_absent)
next
  case (failure msg)
  then show ?thesis by (simp add: error_response_fields)
next
  case (selected policy name)
  note f = routing_response_fields [OF selected(5)]
  from assms(2) f(1) have g: "get_model (model_registry router) name = None"
    by simp
  from f(5,6) g show ?thesis
    by (simp add: latency_or_unknown_def estimate_request_cost_absent)
qed

lemma route_absent_override_returns:
  assumes "override_accepted router request"
    and "get_model (model_registry router) (the (user_override request)) = None"
  shows "\<exists>d. route_request router now request = Inr (d, router)"
proof -
  obtain d where "create_override_response (model_registry router)
      (the (user_override request)) request = Inr d"
    using estimate_request_cost_absent [OF assms(2)] create_override_response_returns by blast
  then show ?thesis
    using route_override [OF assms(1)] by simp
qed

lemma route_absent_selected_returns:
  assumes "\<not> override_accepted router request"
    and "resolve_policy (routing_policy_manager router) request = Some policy"
    and "select_optimal_model router now request policy = Some name"
    and "get_model (model_registry router) name = None"
  shows "\<exists>d router'. route_request router now request = Inr (d, router')"
proof (cases "name = []")
  case True
  with assms show ?thesis
    using route_no_model [of router request policy now] by simp
next
  case False
  obtain d where "create_routing_response (model_registry router) request name policy = Inr d"
    using estimate_request_cost_absent [OF assms(4)] create_routing_response_returns by blast
  then show ?thesis
    using route_selected [OF assms(1-3) False] by simp
qed

text \<open>
  Claim C9, as stated: \<open>route_request\<close> never raises for a well-formed request. The
  cost estimate multiplies the estimated input tokens, an \<^verbatim>\<open>int\<close>, by a \<^verbatim>\<open>float\<close>; for
  the example request with \<^verbatim>\<open>context_length_estimate = 2 ** 1024\<close> the budget fallback
  gpt-35-turbo is selected and the construction of the response raises
  \<^verbatim>\<open>OverflowError\<close>.
\<close>

theorem overflowing_estimate_raises_counterexample:
  "route_request example_router example_now
     (example_request\<lparr>context_length_estimate := Some (2 ^ 1024)\<rparr>) = Inl OverflowError"
  by (simp add: route_defs example_defs)

text \<open>
  Claim C9, amended. For every request whose input-token estimate
  (\<^verbatim>\<open>context_length_estimate\<close>, or 1000 when that is unset or 0) is below 2^1024 - 2^970
  in absolute value, \<open>route_request\<close> returns a decision. The only exception it raises
  is \<^verbatim>\<open>OverflowError\<close>, and only for an estimate beyond that bound. Whatever the
  estimate is: without an accepted override, a request with no policy and no default
  policy, and a request for which the selection returns nothing (in particular when no
  candidate of the chain passes capability validation), get the failure decision, with
  the empty deployment name and confidence 0.0; a returned decision has the empty name
  exactly when its confidence is 0.0; and when the overridden or selected name is not in
  the Directory at the time the response is built, a decision is returned, with the
  latency "unknown" and the cost 0.
\<close>

theorem route_request_returns_decisions:
  "(\<bar>or_int (context_length_estimate request) 1000\<bar> < float_overflow_bound \<longrightarrow>
      (\<exists>d router'. route_request router now request = Inr (d, router')))
   \<and> (route_request router now request = Inl e \<longrightarrow>
        e = OverflowError
        \<and> \<not> \<bar>or_int (context_length_estimate request) 1000\<bar> < float_overflow_bound)
   \<and> (\<not> override_accepted router request
       \<and> resolve_policy (routing_policy_manager router) request = None \<longrightarrow>
        route_request router now request
          = Inr (create_error_response ''No routing policy found'', router))
   \<and> (\<not> override_accepted router request
       \<and> resolve_policy (routing_policy_manager router) request = Some policy
       \<and> (select_optimal_model router now request policy = None
           \<or> select_optimal_model router now request policy = Some []) \<longrightarrow>
        route_request router now request
          = Inr (create_error_response ''No suitable model available'', router))
   \<and> (\<not> override_accepted router request
       \<and> resolve_policy (routing_policy_manager router) request = Some policy
       \<and> \<not> validate_model_capabilities (model_registry router)
             (primary (model_selection_rules policy)) (required_capabilities request)
       \<and> (truthy_str (fallback (model_selection_rules policy)) \<longrightarrow>
            \<not> validate_model_capabilities (model_registry router)
                (the (fallback (model_selection_rules policy))) (required_capabilities request))
       \<and> (truthy_str (budget_fallback (model_selection_rules policy)) \<longrightarrow>
            \<not> validate_model_capabilities (model_registry router)
                (the (budget_fallback (model_selection_rules policy)))
                (required_capabilities request)) \<longrightarrow>
        route_request router now request
          = Inr (create_error_response ''No suitable model available'', router))
   \<and> selected_model (create_error_response msg) = []
   \<and> confidence_score (create_error_response msg) = 0
   \<and> (route_request router now request = Inr (d, router') \<longrightarrow>
        (selected_model d = [] \<longleftrightarrow> confidence_score d = 0)
        \<and> (get_model (model_registry router) (selected_model d) = None \<longrightarrow>
             estimated_latency d = ''unknown'' \<and> budget_impact d = 0))
   \<and> (override_accepted router request
       \<and> get_model (model_registry router) (the (user_override request)) = None \<longrightarrow>
        (\<exists>d. route_request router now request = Inr (d, router)))
   \<and> (\<not> override_accepted router request
       \<and> resolve_policy (routing_policy_manager router) request = Some policy
       \<and> select_optimal_model router now request policy = Some name
       \<and> get_model (model_registry router) name = None \<longrightarrow>
        (\<exists>d router'. route_request router now request = Inr (d, router')))"
proof -
  have 1: "\<bar>or_int (context_length_estimate request) 1000\<bar> < float_overflow_bound \<longrightarrow>
      (\<exists>d router'. route_request router now request = Inr (d, router'))"
    using route_request_returns by blast
  have 2: "route_request router now request = Inl e \<longrightarrow>
        e = OverflowError
        \<and> \<not> \<bar>or_int (context_length_estimate request) 1000\<bar> < float_overflow_bound"
    using route_request_raises by blast
  have 3: "\<not> override_accepted router request
       \<and> resolve_policy (routing_policy_manager router) request = None \<longrightarrow>
        route_request router now request
          = Inr (create_error_response ''No routing policy found'', router)"
    using route_no_policy by blast
  have 4: "\<not> override_accepted router request
       \<and> resolve_policy (routing_policy_manager router) request = Some policy
       \<and> (select_optimal_model router now request policy = None
           \<or> select_optimal_model router now request policy = Some []) \<longrightarrow>
        route_request router now request
          = Inr (create_error_response ''No suitable model available'', router)"
    using route_no_model by blast
  have 5: "\<not> override_accepted router request
       \<and> resolve_policy (routing_policy_manager router) request = Some policy
       \<and> \<not> validate_model_capabilities (model_registry router)
             (primary (model_selection_rules policy)) (required_capabilities request)
       \<and> (truthy_str (fallback (model_selection_rules policy)) \<longrightarrow>
            \<not> validate_model_capabilities (model_registry router)
                (the (fallback (model_selection_rules policy))) (required_capabilities request))
       \<and> (truthy_str (budget_fallback (model_selection_rules policy)) \<longrightarrow>
            \<not> validate_model_capabilities (model_registry router)
                (the (budget_fallback (model_selection_rules policy)))
                (required_capabilities request)) \<longrightarrow>
        route_request router now request
          = Inr (create_error_response ''No suitable model available'', router)"
    using route_no_candidate [of router request policy now] by blast
  have 6: "selected_model (create_error_response msg) = []"
    and 7: "confidence_score (create_error_response msg) = 0"
    by (simp_all add: error_response_fields)
  have 8: "route_request router now request = Inr (d, router') \<longrightarrow>
        (selected_model d = [] \<longleftrightarrow> confidence_score d = 0)
        \<and> (get_model (model_registry router) (selected_model d) = None \<longrightarrow>
             estimated_latency d = ''unknown'' \<and> budget_impact d = 0)"
    using route_selected_empty_iff route_absent_deployment by blast
  have 9: "override_accepted router request
       \<and> get_model (model_registry router) (the (user_override request)) = None \<longrightarrow>
        (\<exists>d. route_request router now request = Inr (d, router))"
    using route_absent_override_returns by blast
  have 10: "\<not> override_accepted router request
       \<and> resolve_policy (routing_policy_manager router) request = Some policy
       \<and> select_optimal_model router now request policy = Some name
       \<and> get_model (model_registry router) name = None \<longrightarrow>
        (\<exists>d router'. route_request router now request = Inr (d, router'))"
    using route_absent_selected_returns by blast
  from 1 2 3 4 5 6 7 8 9 10 show ?thesis
    by (intro conjI)
qed

theorem route_request_returns_decisions_witness:
  "\<bar>or_int (context_length_estimate example_request) 1000\<bar> < float_overflow_bound
   \<and> route_request example_router example_now example_request
       = Inr (\<lparr>selected_model = ''gpt-35-turbo'',
               routing_reason = ''Budget constraint - using cost-optimized model'',
               fallback_used = True, budget_impact = 1 / 40, estimated_latency = ''high'',
               confidence_score = 7 / 10\<rparr>,
              update_usage_tracking example_router example_now ''acme'' ''gpt-35-turbo'')
   \<and> \<not> override_accepted example_router (example_request\<lparr>feature := ''summarize''\<rparr>)
   \<and> resolve_policy (routing_policy_manager example_router)
        (example_request\<lparr>feature := ''summarize''\<rparr>) = None
   \<and> route_request example_router example_now (example_request\<lparr>feature := ''summarize''\<rparr>)
       = Inr (\<lparr>selected_model = [], routing_reason = ''No routing policy found'',
          fallback_used = False, budget_impact = 0, estimated_latency = ''unknown'',
          confidence_score = 0\<rparr>, example_router)"
proof -
  have b: "\<bar>or_int (context_length_estimate example_request) 1000\<bar> < float_overflow_bound"
    by (simp add: or_int_def example_request_def float_overflow_bound_def)
  have 1: "\<not> override_accepted example_router (example_request\<lparr>feature := ''summarize''\<rparr>)"
    by (simp add: override_accepted_def example_defs)
  have 2: "resolve_policy (routing_policy_manager example_router)
        (example_request\<lparr>feature := ''summarize''\<rparr>) = None"
    by (simp add: resolve_policy_def get_policy_def get_default_policy_def policy_key_def
        example_defs)
  have "\<exists>d router'. route_request example_router example_now example_request = Inr (d, router')"
    using route_request_returns_decisions [of example_request example_router example_now]
      b by blast
  then have r: "route_request example_router example_now example_request
       = Inr (\<lparr>selected_model = ''gpt-35-turbo'',
               routing_reason = ''Budget constraint - using cost-optimized model'',
               fallback_used = True, budget_impact = 1 / 40, estimated_latency = ''high'',
               confidence_score = 7 / 10\<rparr>,
              update_usage_tracking example_router example_now ''acme'' ''gpt-35-turbo'')"
    by (simp add: route_defs example_defs)
  have f: "route_request example_router example_now (example_request\<lparr>feature := ''summarize''\<rparr>)
          = Inr (create_error_response ''No routing policy found'', example_router)"
    using route_request_returns_decisions
      [of "example_request\<lparr>feature := ''summarize''\<rparr>" example_router example_now] 1 2
    by blast
  from b r 1 2 f show ?thesis
    by (simp add: create_error_response_def)
qed

subsection \<open>Preference ordering\<close>

lemma select_quality_first_passing:
  "select_quality_priority_model reg request policy =
     first_passing
       ([(primary (model_selection_rules policy),
          \<lambda>n. validate_model_capabilities reg n (required_capabilities request)
               \<and> check_performance_requirements reg n request)]
        @ optional_candidate (fallback (model_selection_rules policy))
            (\<lambda>n. validate_model_capabilities reg n (required_capabilities request)
               \<and> check_performance_requirements reg n request)
        @ optional_candidate (budget_fallback (model_selection_rules policy))
            (\<lambda>n. validate_model_capabilities reg n (required_capabilities request)))"
  by (auto simp: select_quality_priority_model_def first_passing_def optional_candidate_def
      truthy_str_def Let_def split: option.splits)

lemma select_cost_first_passing:
  "select_cost_optimized_model reg request policy =
     first_passing
       (optional_candidate (fallback (model_selection_rules policy))
            (\<lambda>n. validate_model_capabilities reg n (required_capabilities request)
               \<and> check_performance_requirements reg n request)
        @ [(primary (model_selection_rules policy),
          \<lambda>n. validate_model_capabilities reg n (required_capabilities request)
               \<and> check_performance_requirements reg n request)]
        @ optional_candidate (budget_fallback (model_selection_rules policy))
            (\<lambda>n. validate_model_capabilities reg n (required_capabilities request)))"
  by (auto simp: select_cost_optimized_model_def first_passing_def optional_candidate_def
      truthy_str_def Let_def split: option.splits)

lemma select_quality_sound:
  "select_quality_priority_model reg request policy = Some name \<Longrightarrow>
   validate_model_capabilities reg name (required_capabilities request)
   \<and> (check_performance_requirements reg name request
       \<or> Some name = budget_fallback (model_selection_rules policy))"
  by (auto simp: select_quality_priority_model_def truthy_str_def Let_def
      split: if_splits option.splits)

lemma select_cost_sound:
  "select_cost_optimized_model reg request policy = Some name \<Longrightarrow>
   validate_model_capabilities reg name (required_capabilities request)
   \<and> (check_performance_requirements reg name request
       \<or> Some name = budget_fallback (model_selection_rules policy))"
  by (auto simp: select_cost_optimized_model_def truthy_str_def Let_def
      split: if_splits option.splits)

text \<open>
  Claim C6, as stated: a candidate of the preference ordering is selected only if it
  passes capability validation and performance-fit validation. On the code the budget
  fallback is selected on capability validation alone: for a required latency of
  very\_low, none of the three example deployments fits, and the budget fallback
  gpt-35-turbo (latency high) is selected.
\<close>

lemma select_optimal_model_dispatch:
  assumes "\<not> (\<not> check_budget_constraints router now (tenant_id request) policy
                (budget_override request)
      \<and> truthy_str (budget_fallback (model_selection_rules policy))
      \<and> validate_model_capabilities (model_registry router)
           (the (budget_fallback (model_selection_rules policy)))
           (required_capabilities request))"
  shows "select_optimal_model router now request policy
     = (if (case request_quality_priority request of
              None \<Rightarrow> quality_priority (feature_flags policy)
            | Some q \<Rightarrow> q)
        then select_quality_priority_model (model_registry router) request policy
        else select_cost_optimized_model (model_registry router) request policy)"
proof -
  have h: "(\<not> check_budget_constraints router now (tenant_id request) policy
                (budget_override request)
      \<and> truthy_str (budget_fallback (model_selection_rules policy))
      \<and> validate_model_capabilities (model_registry router)
           (the (budget_fallback (model_selection_rules policy)))
           (required_capabilities request)) = False"
    using assms by blast
  show ?thesis
    by (simp only: select_optimal_model_def Let_def h if_False)
qed

theorem budget_fallback_skips_performance_counterexample:
  "select_quality_priority_model example_registry
     (example_request\<lparr>latency_requirement := Some ''very_low''\<rparr>) example_policy
     = Some ''gpt-35-turbo''
   \<and> \<not> check_performance_requirements example_registry ''gpt-35-turbo''
        (example_request\<lparr>latency_requirement := Some ''very_low''\<rparr>)"
  by (simp add: route_defs example_defs)

text \<open>
  Claim C6, amended. The quality priority is the one of the request when it gives one,
  and the one of the policy otherwise; unless the budget gate has selected the budget
  fallback, the selection is the quality ordering when the priority is set and the cost
  ordering when it is not. The quality ordering tries the candidates in the order
  primary, fallback, budget fallback; the cost ordering in the order fallback,
  primary, budget fallback; a fallback or budget fallback that is unset or empty is
  skipped. The primary and the fallback must pass capability validation and
  performance-fit validation; the budget fallback, tried last, must pass capability
  validation only. The first candidate that passes is returned. So a selected candidate
  has passed capability validation, and performance-fit validation unless it is the
  budget fallback.
\<close>

theorem preference_ordering:
  "select_quality_priority_model reg request policy =
     first_passing
       ([(primary (model_selection_rules policy),
          \<lambda>n. validate_model_capabilities reg n (required_capabilities request)
               \<and> check_performance_requirements reg n request)]
        @ optional_candidate (fallback (model_selection_rules policy))
            (\<lambda>n. validate_model_capabilities reg n (required_capabilities request)
               \<and> check_performance_requirements reg n request)
        @ optional_candidate (budget_fallback (model_selection_rules policy))
            (\<lambda>n. validate_model_capabilities reg n (required_capabilities request)))
   \<and> select_cost_optimized_model reg request policy =
     first_passing
       (optional_candidate (fallback (model_selection_rules policy))
            (\<lambda>n. validate_model_capabilities reg n (required_capabilities request)
               \<and> check_performance_requirements reg n request)
        @ [(primary (model_selection_rules policy),
          \<lambda>n. validate_model_capabilities reg n (required_capabilities request)
               \<and> check_performance_requirements reg n request)]
        @ optional_candidate (budget_fallback (model_selection_rules policy))
            (\<lambda>n. validate_model_capabilities reg n (required_capabilities request)))
   \<and> (select_quality_priority_model reg request policy = Some name
       \<or> select_cost_optimized_model reg request policy = Some name \<longrightarrow>
        validate_model_capabilities reg name (required_capabilities request)
        \<and> (check_performance_requirements reg name request
            \<or> Some name = budget_fallback (model_selection_rules policy)))
   \<and> (\<not> (\<not> check_budget_constraints router now (tenant_id request) policy
                (budget_override request)
           \<and> truthy_str (budget_fallback (model_selection_rules policy))
           \<and> validate_model_capabilities (model_registry router)
                (the (budget_fallback (model_selection_rules policy)))
                (required_capabilities request)) \<longrightarrow>
        select_optimal_model router now request policy
          = (if (case request_quality_priority request of
                   None \<Rightarrow> quality_priority (feature_flags policy)
                 | Some q \<Rightarrow> q)
             then select_quality_priority_model (model_registry router) request policy
             else select_cost_optimized_model (model_registry router) request policy))"
proof (intro conjI)
  show "select_quality_priority_model reg request policy =
     first_passing
       ([(primary (model_selection_rules policy),
          \<lambda>n. validate_model_capabilities reg n (required_capabilities request)
               \<and> check_performance_requirements reg n request)]
        @ optional_candidate (fallback (model_selection_rules policy))
            (\<lambda>n. validate_model_capabilities reg n (required_capabilities request)
               \<and> check_performance_requirements reg n request)
        @ optional_candidate (budget_fallback (model_selection_rules policy))
            (\<lambda>n. validate_model_capabilities reg n (required_capabilities request)))"
    by (rule select_quality_first_passing)
  show "select_cost_optimized_model reg request policy =
     first_passing
       (optional_candidate (fallback (model_selection_rules policy))
            (\<lambda>n. validate_model_capabilities reg n (required_capabilities request)
               \<and> check_performance_requirements reg n request)
        @ [(primary (model_selection_rules policy),
          \<lambda>n. validate_model_capabilities reg n (required_capabilities request)
               \<and> check_performance_requirements reg n request)]
        @ optional_candidate (budget_fallback (model_selection_rules policy))
            (\<lambda>n. validate_model_capabilities reg n (required_capabilities request)))"
    by (rule select_cost_first_passing)
  show "select_quality_priority_model reg request policy = Some name
       \<or> select_cost_optimized_model reg request policy = Some name \<longrightarrow>
        validate_model_capabilities reg name (required_capabilities request)
        \<and> (check_performance_requirements reg name request
            \<or> Some name = budget_fallback (model_selection_rules policy))"
    using select_quality_sound [of reg request policy name]
      select_cost_sound [of reg request policy name]
    by blast
  show "\<not> (\<not> check_budget_constraints router now (tenant_id request) policy
                (budget_override request)
           \<and> truthy_str (budget_fallback (model_selection_rules policy))
           \<and> validate_model_capabilities (model_registry router)
                (the (budget_fallback (model_selection_rules policy)))
                (required_capabilities request)) \<longrightarrow>
        select_optimal_model router now request policy
          = (if (case request_quality_priority request of
                   None \<Rightarrow> quality_priority (feature_flags policy)
                 | Some q \<Rightarrow> q)
             then select_quality_priority_model (model_registry router) request policy
             else select_cost_optimized_model (model_registry router) request policy)"
    using select_optimal_model_dispatch [of router now request policy] by blast
qed

theorem preference_ordering_witness:
  "select_quality_priority_model example_registry
     (example_request\<lparr>latency_requirement := Some ''low''\<rparr>) example_policy
     = Some ''gpt-4o-mini''
   \<and> validate_model_capabilities example_registry ''gpt-4o-mini'' [''chat'']
   \<and> check_performance_requirements example_registry ''gpt-4o-mini''
        (example_request\<lparr>latency_requirement := Some ''low''\<rparr>)
   \<and> check_budget_constraints example_router example_now ''acme'' example_policy (Some 200)
   \<and> select_optimal_model example_router example_now
        (example_request\<lparr>budget_override := Some 200\<rparr>) example_policy = Some ''gpt-4o''
   \<and> select_optimal_model example_router example_now
        (example_request\<lparr>budget_override := Some 200, request_quality_priority := Some False\<rparr>)
        example_policy = Some ''gpt-4o-mini''"
proof -
  have s: "select_quality_priority_model example_registry
     (example_request\<lparr>latency_requirement := Some ''low''\<rparr>) example_policy
     = Some ''gpt-4o-mini''"
    by (simp add: route_defs example_defs)
  have b: "Some ''gpt-4o-mini'' \<noteq> budget_fallback (model_selection_rules example_policy)"
    and b': "required_capabilities (example_request\<lparr>latency_requirement := Some ''low''\<rparr>)
              = [''chat'']"
    by (simp_all add: example_policy_def example_request_def)
  have g: "check_budget_constraints example_router example_now ''acme'' example_policy (Some 200)"
    by (simp add: check_budget_constraints_def example_defs current_spend_def or_float_def)
  have g1: "check_budget_constraints example_router example_now
              (tenant_id (example_request\<lparr>budget_override := Some 200\<rparr>)) example_policy
              (budget_override (example_request\<lparr>budget_override := Some 200\<rparr>))"
    and g2: "check_budget_constraints example_router example_now
              (tenant_id (example_request\<lparr>budget_override := Some 200,
                 request_quality_priority := Some False\<rparr>)) example_policy
              (budget_override (example_request\<lparr>budget_override := Some 200,
                 request_quality_priority := Some False\<rparr>))"
    using g by (simp_all add: example_request_def)
  have q: "select_quality_priority_model (model_registry example_router)
             (example_request\<lparr>budget_override := Some 200\<rparr>) example_policy = Some ''gpt-4o''"
    and c: "select_cost_optimized_model (model_registry example_router)
             (example_request\<lparr>budget_override := Some 200, request_quality_priority := Some False\<rparr>)
             example_policy = Some ''gpt-4o-mini''"
    by (simp_all add: route_defs example_defs)
  have t: "request_quality_priority (example_request\<lparr>budget_override := Some 200\<rparr>) = None"
    "request_quality_priority
       (example_request\<lparr>budget_override := Some 200, request_quality_priority := Some False\<rparr>)
       = Some False"
    "quality_priority (feature_flags example_policy)"
    by (simp_all add: example_request_def example_policy_def)
  note A = preference_ordering
    [of example_registry "example_request\<lparr>latency_requirement := Some ''low''\<rparr>"
      example_policy "''gpt-4o-mini''" example_router example_now]
  note B = preference_ordering
    [of example_registry "example_request\<lparr>budget_override := Some 200\<rparr>" example_policy
      "''gpt-4o''" example_router example_now]
  note C = preference_ordering
    [of example_registry
      "example_request\<lparr>budget_override := Some 200, request_quality_priority := Some False\<rparr>"
      example_policy "''gpt-4o-mini''" example_router example_now]
  have a: "validate_model_capabilities example_registry ''gpt-4o-mini''
        (required_capabilities (example_request\<lparr>latency_requirement := Some ''low''\<rparr>))
     \<and> check_performance_requirements example_registry ''gpt-4o-mini''
        (example_request\<lparr>latency_requirement := Some ''low''\<rparr>)"
    using A s b by blast
  have "select_optimal_model example_router example_now
        (example_request\<lparr>budget_override := Some 200\<rparr>) example_policy
      = (if (case request_quality_priority (example_request\<lparr>budget_override := Some 200\<rparr>) of
               None \<Rightarrow> quality_priority (feature_flags example_policy)
             | Some q \<Rightarrow> q)
         then select_quality_priority_model (model_registry example_router)
                (example_request\<lparr>budget_override := Some 200\<rparr>) example_policy
         else select_cost_optimized_model (model_registry example_router)
                (example_request\<lparr>budget_override := Some 200\<rparr>) example_policy)"
    using B g1 by blast
  then have d1: "select_optimal_model example_router example_now
        (example_request\<lparr>budget_override := Some 200\<rparr>) example_policy = Some ''gpt-4o''"
    by (simp only: t q option.case if_True)
  have "select_optimal_model example_router example_now
        (example_request\<lparr>budget_override := Some 200, request_quality_priority := Some False\<rparr>)
        example_policy
      = (if (case request_quality_priority (example_request\<lparr>budget_override := Some 200,
                    request_quality_priority := Some False\<rparr>) of
               None \<Rightarrow> quality_priority (feature_flags example_policy)
             | Some q \<Rightarrow> q)
         then select_quality_priority_model (model_registry example_router)
                (example_request\<lparr>budget_override := Some 200,
                    request_quality_priority := Some False\<rparr>) example_policy
         else select_cost_optimized_model (model_registry example_router)
                (example_request\<lparr>budget_override := Some 200,
                    request_quality_priority := Some False\<rparr>) example_policy)"
    using C g2 by blast
  then have d2: "select_optimal_model example_router example_now
        (example_request\<lparr>budget_override := Some 200, request_quality_priority := Some False\<rparr>)
        example_policy = Some ''gpt-4o-mini''"
    by (simp only: t c option.case if_False)
  from a have a': "validate_model_capabilities example_registry ''gpt-4o-mini'' [''chat'']
     \<and> check_performance_requirements example_registry ''gpt-4o-mini''
        (example_request\<lparr>latency_requirement := Some ''low''\<rparr>)"
    by (simp only: b')
  from s a' g d1 d2 show ?thesis
    by blast
qed

subsection \<open>Failed loads\<close>

lemma load_config_keeps_snapshot:
  "load_config env now reg FileMissing = reg" "load_config env now reg JsonError = reg"
  by (simp_all add: load_config_def)

lemma load_policies_keeps_snapshot:
  "load_policies now pm FileMissing = pm" "load_policies now pm JsonError = pm"
  by (simp_all add: load_policies_def)

lemma load_models_malformed:
  "load_models env ms (map Wellformed ds @ Malformed # rest)
   = (fst (load_models env ms (map Wellformed ds)), False)"
  by (induction ds arbitrary: ms) (simp_all add: Let_def)

lemma load_models_wellformed: "snd (load_models env ms (map Wellformed ds))"
  by (induction ds arbitrary: ms) (simp_all add: Let_def)

lemma load_config_malformed_entry:
  "load_config env now reg (Parsed (map Wellformed ds @ Malformed # rest))
   = reg\<lparr>models := fst (load_models env Map.empty (map Wellformed ds))\<rparr>"
  by (simp add: load_config_def load_models_malformed)

text \<open>
  Claim C5: a load from a missing or malformed source leaves the previous catalog and
  the previous policies as they were. The code does so when the file is missing and when
  it is not JSON (the two lemmas above). When the file is JSON and an entry is malformed,
  the dictionary has been cleared before the entries are read, and the exception is
  caught after it: the catalog is left with the entries that precede the malformed one.
  Here a catalog of three deployments is reloaded from a source with one good entry and
  one malformed entry, and the policies from a source with one malformed entry: gpt-4o is
  gone, gpt-4o-mini is there, and the policy of acme is gone.
\<close>

theorem failed_load_loses_snapshot:
  "get_model example_registry ''gpt-4o'' \<noteq> None
   \<and> get_model
        (load_config Map.empty example_now example_registry
           (Parsed [Wellformed (example_model ''gpt-4o-mini'' [''chat''] ''healthy'' ''low'' 128000),
                    Malformed]))
        ''gpt-4o'' = None
   \<and> get_model
        (load_config Map.empty example_now example_registry
           (Parsed [Wellformed (example_model ''gpt-4o-mini'' [''chat''] ''healthy'' ''low'' 128000),
                    Malformed]))
        ''gpt-4o-mini'' \<noteq> None
   \<and> get_policy example_manager ''acme'' ''qa'' \<noteq> None
   \<and> get_policy (load_policies example_now example_manager (Parsed [Malformed])) ''acme'' ''qa''
       = None"
  by (simp add: load_config_def load_policies_def get_model_def get_policy_def example_defs
      resolve_model_data_def create_model_info_def resolve_environment_variables_def Let_def)

subsection \<open>Failed invocations\<close>

lemma get_model_update_model_health:
  "get_model (update_model_health now reg sel status n) k
   = (if k = sel
      then map_option (\<lambda>m. m\<lparr>health_status := status, last_health_check := Some now,
                               error_count := n\<rparr>) (get_model reg sel)
      else get_model reg k)"
  by (simp add: update_model_health_def get_model_def split: option.splits)

lemma get_model_record_usage:
  "get_model (record_usage reg sel a b) k
   = (if k = sel
      then map_option (\<lambda>m. m\<lparr>total_requests := total_requests m + a,
                               total_tokens := total_tokens m + b\<rparr>) (get_model reg sel)
      else get_model reg k)"
  by (simp add: record_usage_def get_model_def split: option.splits)

lemma report_failure_registry:
  "model_registry (intelligent_router (report_failure client now sel))
   = update_model_health now (model_registry (intelligent_router client)) sel ''unhealthy'' 1"
  by (simp add: report_failure_def Let_def)

lemma usage_tracking_registry:
  "model_registry (intelligent_router (client_update_usage_tracking client now tenant sel c))
   = record_usage (model_registry (intelligent_router client)) sel 1 0"
  by (simp add: client_update_usage_tracking_def Let_def)

lemma route_request_registry:
  "route_request router now request = Inr (d, router') \<Longrightarrow>
   model_registry router' = model_registry router"
  by (cases rule: route_request_decision_cases [of router now request d router'])
     (simp_all add: update_usage_tracking_def Let_def)

lemma execute_chat_calls:
  "execute_chat_completion client backend request sel = (r, calls) \<Longrightarrow>
   calls = [] \<or> calls = [sel]"
  by (auto simp: execute_chat_completion_def split: if_splits)

lemma execute_embedding_calls:
  "execute_embedding client backend request sel = (r, calls) \<Longrightarrow>
   calls = [] \<or> calls = [sel]"
  by (auto simp: execute_embedding_def split: if_splits)

text \<open>
  The registry after the \<^verbatim>\<open>except\<close> clause has run for \<open>sel\<close>, from a registry
  \<open>reg\<close> on which the usage of \<open>sel\<close> may have been recorded.
\<close>

lemma failure_registry_fields:
  assumes "reg' = update_model_health now reg0 sel ''unhealthy'' 1"
    and "reg0 = reg \<or> reg0 = record_usage reg sel 1 0"
  shows "map_option health_status (get_model reg' sel)
           = map_option (\<lambda>_. ''unhealthy'') (get_model reg sel)"
    and "map_option error_count (get_model reg' sel) = map_option (\<lambda>_. 1) (get_model reg sel)"
    and "map_option last_health_check (get_model reg' sel)
           = map_option (\<lambda>_. Some now) (get_model reg sel)"
    and "other \<noteq> sel \<Longrightarrow> get_model reg' other = get_model reg other"
  using assms
  by (auto simp: get_model_update_model_health get_model_record_usage option.map_comp comp_def)

text \<open>The paths of \<^verbatim>\<open>chat_completion\<close> after a deployment has been selected.\<close>

lemma chat_completion_selected:
  assumes "route_request (intelligent_router client) now
             (chat_routing_request request tenant feat override) = Inr (resp, router1)"
    and "selected_model resp = sel" and "sel \<noteq> []"
  shows "chat_completion client now t0 t1 backend request tenant feat override
     = (case execute_chat_completion (client\<lparr>intelligent_router := router1\<rparr>) backend request sel of
          (Inl e, calls) \<Rightarrow>
            (Inl e, report_failure (client\<lparr>intelligent_router := router1\<rparr>) now sel, calls)
        | (Inr response, calls) \<Rightarrow>
            (case calculate_chat_cost (model_registry router1) sel response of
               Inl e \<Rightarrow>
                 (Inl e, report_failure (client\<lparr>intelligent_router := router1\<rparr>) now sel, calls)
             | Inr c \<Rightarrow>
                 (case chat_completion_response sel c ((t1 - t0) * 1000) response of
                    Inl e \<Rightarrow>
                      (Inl e,
                       report_failure
                         (client_update_usage_tracking (client\<lparr>intelligent_router := router1\<rparr>)
                            now tenant sel c) now sel, calls)
                  | Inr result \<Rightarrow>
                      (Inr result,
                       client_update_usage_tracking (client\<lparr>intelligent_router := router1\<rparr>)
                         now tenant sel c, calls))))"
  using assms by (simp add: chat_completion_def Let_def split: prod.splits sum.splits)

lemma create_embedding_selected:
  assumes "route_request (intelligent_router client) now
             (embedding_routing_request request tenant feat override) = Inr (resp, router1)"
    and "selected_model resp = sel" and "sel \<noteq> []"
  shows "create_embedding client now t0 t1 backend request tenant feat override
     = (case execute_embedding (client\<lparr>intelligent_router := router1\<rparr>) backend request sel of
          (Inl e, calls) \<Rightarrow>
            (Inl e, report_failure (client\<lparr>intelligent_router := router1\<rparr>) now sel, calls)
        | (Inr response, calls) \<Rightarrow>
            (case calculate_embedding_cost (model_registry router1) sel response of
               Inl e \<Rightarrow>
                 (Inl e, report_failure (client\<lparr>intelligent_router := router1\<rparr>) now sel, calls)
             | Inr c \<Rightarrow>
                 (case embedding_response sel c ((t1 - t0) * 1000) response of
                    Inl e \<Rightarrow>
                      (Inl e,
                       report_failure
                         (client_update_usage_tracking (client\<lparr>intelligent_router := router1\<rparr>)
                            now tenant sel c) now sel, calls)
                  | Inr result \<Rightarrow>
                      (Inr result,
                       client_update_usage_tracking (client\<lparr>intelligent_router := router1\<rparr>)
                         now tenant sel c, calls))))"
  using assms by (simp add: create_embedding_def Let_def split: prod.splits sum.splits)

lemma chat_completion_failure:
  assumes rr: "route_request (intelligent_router client) now
             (chat_routing_request request tenant feat override) = Inr (resp, router1)"
    and sel: "selected_model resp = sel" "sel \<noteq> []"
    and res: "chat_completion client now t0 t1 backend request tenant feat override
             = (Inl e, client', calls)"
  shows "\<exists>reg0. model_registry (intelligent_router client')
                 = update_model_health now reg0 sel ''unhealthy'' 1
           \<and> (reg0 = model_registry (intelligent_router client)
                \<or> reg0 = record_usage (model_registry (intelligent_router client)) sel 1 0)"
    and "calls = [] \<or> calls = [sel]"
proof -
  have reg: "model_registry router1 = model_registry (intelligent_router client)"
    using rr by (rule route_request_registry)
  obtain r calls0 where ex: "execute_chat_completion (client\<lparr>intelligent_router := router1\<rparr>)
      backend request sel = (r, calls0)"
    by (cases "execute_chat_completion (client\<lparr>intelligent_router := router1\<rparr>)
      backend request sel")
  have c0: "calls0 = [] \<or> calls0 = [sel]"
    using ex by (rule execute_chat_calls)
  note eq = chat_completion_selected [OF rr sel, of t0 t1 backend]
  have "(\<exists>reg0. model_registry (intelligent_router client')
                 = update_model_health now reg0 sel ''unhealthy'' 1
           \<and> (reg0 = model_registry (intelligent_router client)
                \<or> reg0 = record_usage (model_registry (intelligent_router client)) sel 1 0))
        \<and> calls = calls0"
  proof (cases r)
    case (Inl e1)
    with res eq ex have "client' = report_failure (client\<lparr>intelligent_router := router1\<rparr>) now sel"
      and "calls = calls0"
      by simp_all
    then show ?thesis
      by (auto simp: report_failure_registry reg)
  next
    case (Inr response)
    note r = this
    show ?thesis
    proof (cases "calculate_chat_cost (model_registry router1) sel response")
      case (Inl e1)
      with res eq ex r have "client' = report_failure (client\<lparr>intelligent_router := router1\<rparr>) now sel"
        and "calls = calls0"
        by simp_all
      then show ?thesis
        by (auto simp: report_failure_registry reg)
    next
      case (Inr c)
      note c = this
      show ?thesis
      proof (cases "chat_completion_response sel c ((t1 - t0) * 1000) response")
        case (Inl e1)
        with res eq ex r c have "client' = report_failure
              (client_update_usage_tracking (client\<lparr>intelligent_router := router1\<rparr>)
                 now tenant sel c) now sel"
          and "calls = calls0"
          by simp_all
        then show ?thesis
          by (auto simp: report_failure_registry usage_tracking_registry reg)
      next
        case (Inr result)
        with res eq ex r c show ?thesis
          by simp
      qed
    qed
  qed
  with c0 show "\<exists>reg0. model_registry (intelligent_router client')
                 = update_model_health now reg0 sel ''unhealthy'' 1
           \<and> (reg0 = model_registry (intelligent_router client)
                \<or> reg0 = record_usage (model_registry (intelligent_router client)) sel 1 0)"
    and "calls = [] \<or> calls = [sel]"
    by simp_all
qed

lemma create_embedding_failure:
  assumes rr: "route_request (intelligent_router client) now
             (embedding_routing_request request tenant feat override) = Inr (resp, router1)"
    and sel: "selected_model resp = sel" "sel \<noteq> []"
    and res: "create_embedding client now t0 t1 backend request tenant feat override
             = (Inl e, client', calls)"
  shows "\<exists>reg0. model_registry (intelligent_router client')
                 = update_model_health now reg0 sel ''unhealthy'' 1
           \<and> (reg0 = model_registry (intelligent_router client)
                \<or> reg0 = record_usage (model_registry (intelligent_router client)) sel 1 0)"
    and "calls = [] \<or> calls = [sel]"
proof -
  have reg: "model_registry router1 = model_registry (intelligent_router client)"
    using rr by (rule route_request_registry)
  obtain r calls0 where ex: "execute_embedding (client\<lparr>intelligent_router := router1\<rparr>)
      backend request sel = (r, calls0)"
    by (cases "execute_embedding (client\<lparr>intelligent_router := router1\<rparr>)
      backend request sel")
  have c0: "calls0 = [] \<or> calls0 = [sel]"
    using ex by (rule execute_embedding_calls)
  note eq = create_embedding_selected [OF rr sel, of t0 t1 backend]
  have "(\<exists>reg0. model_registry (intelligent_router client')
                 = update_model_health now reg0 sel ''unhealthy'' 1
           \<and> (reg0 = model_registry (intelligent_router client)
                \<or> reg0 = record_usage (model_registry (intelligent_router client)) sel 1 0))
        \<and> calls = calls0"
  proof (cases r)
    case (Inl e1)
    with res eq ex have "client' = report_failure (client\<lparr>intelligent_router := router1\<rparr>) now sel"
      and "calls = calls0"
      by simp_all
    then show ?thesis
      by (auto simp: report_failure_registry reg)
  next
    case (Inr response)
    note r = this
    show ?thesis
    proof (cases "calculate_embedding_cost (model_registry router1) sel response")
      case (Inl e1)
      with res eq ex r have "client' = report_failure (client\<lparr>intelligent_router := router1\<rparr>) now sel"
        and "calls = calls0"
        by simp_all
      then show ?thesis
        by (auto simp: report_failure_registry reg)
    next
      case (Inr c)
      note c = this
      show ?thesis
      proof (cases "embedding_response sel c ((t1 - t0) * 1000) response")
        case (Inl e1)
        with res eq ex r c have "client' = report_failure
              (client_update_usage_tracking (client\<lparr>intelligent_router := router1\<rparr>)
                 now tenant sel c) now sel"
          and "calls = calls0"
          by simp_all
        then show ?thesis
          by (auto simp: report_failure_registry usage_tracking_registry reg)
      next
        case (Inr result)
        with res eq ex r c show ?thesis
          by simp
      qed
    qed
  qed
  with c0 show "\<exists>reg0. model_registry (intelligent_router client')
                 = update_model_health now reg0 sel ''unhealthy'' 1
           \<and> (reg0 = model_registry (intelligent_router client)
                \<or> reg0 = record_usage (model_registry (intelligent_router client)) sel 1 0)"
    and "calls = [] \<or> calls = [sel]"
    by simp_all
qed


lemma chat_completion_backend_failure:
  assumes "route_request (intelligent_router client) now
             (chat_routing_request request tenant feat override) = Inr (resp, router1)"
    and "selected_model resp = sel" and "sel \<noteq> []"
    and "sel \<in> clients client" and "backend sel request = Inl e"
  shows "chat_completion client now t0 t1 backend request tenant feat override
           = (Inl e, report_failure (client\<lparr>intelligent_router := router1\<rparr>) now sel, [sel])"
  using assms(4,5)
  by (simp add: chat_completion_selected [OF assms(1-3)] execute_chat_completion_def)

lemma create_embedding_backend_failure:
  assumes "route_request (intelligent_router client) now
             (embedding_routing_request request tenant feat override) = Inr (resp, router1)"
    and "selected_model resp = sel" and "sel \<noteq> []"
    and "sel \<in> clients client" and "backend sel request = Inl e"
  shows "create_embedding client now t0 t1 backend request tenant feat override
           = (Inl e, report_failure (client\<lparr>intelligent_router := router1\<rparr>) now sel, [sel])"
  using assms(4,5)
  by (simp add: create_embedding_selected [OF assms(1-3)] execute_embedding_def)

lemmas client_defs = chat_completion_def chat_routing_request_def execute_chat_completion_def
  report_failure_def client_update_usage_tracking_def calculate_chat_cost_def
  chat_completion_response_def estimate_context_length_def len_split_def space_length_def
  char_lower_def update_model_health_def record_usage_def record_usage_cost_def
  example_client_def example_chat_request_def example_client_after_errors_def
  example_failing_backend_def

lemma example_chat_routing_request:
  "chat_routing_request example_chat_request ''acme'' ''qa'' None
   = example_request\<lparr>context_length_estimate := Some 11\<rparr>"
  by (simp add: chat_routing_request_def example_chat_request_def example_request_def
      estimate_context_length_def len_split_def space_length_def char_lower_def)

text \<open>
  Claim C8, as stated: a failed invocation reports the error count of the deployment
  plus one. In the example gpt-35-turbo is healthy with an error count of 2; the chat
  completion is routed to it, the backend fails, the exception is propagated after one
  call, and the error count reported is 1, not 3.
\<close>

theorem error_count_is_reset_counterexample:
  "map_option error_count
     (get_model (model_registry (intelligent_router example_client_after_errors)) ''gpt-35-turbo'')
     = Some 2
   \<and> map_option health_status
     (get_model (model_registry (intelligent_router example_client_after_errors)) ''gpt-35-turbo'')
     = Some ''healthy''
   \<and> fst (chat_completion example_client_after_errors example_now 0 1 example_failing_backend
            example_chat_request ''acme'' ''qa'' None) = Inl (ApiError ''timeout'')
   \<and> snd (snd (chat_completion example_client_after_errors example_now 0 1
            example_failing_backend example_chat_request ''acme'' ''qa'' None)) = [''gpt-35-turbo'']
   \<and> map_option error_count
     (get_model (model_registry (intelligent_router
        (fst (snd (chat_completion example_client_after_errors example_now 0 1
            example_failing_backend example_chat_request ''acme'' ''qa'' None))))) ''gpt-35-turbo'')
     = Some 1"
  by (simp add: example_chat_routing_request client_defs route_defs example_defs)

text \<open>
  Claim C8, amended. When a chat completion or an embedding fails after the router has
  selected a deployment (any exception inside the \<^verbatim>\<open>try\<close> block: no backend client for
  the deployment, an exception of the backend call, a response that cannot be read), the
  client sets the health of the selected deployment, if it is in the Directory, to
  "unhealthy", its error count to 1, whatever it was before, and its last health check
  to now; the other deployments stay as they were; and the backend has been called at
  most once, on the selected deployment. When the backend call itself raises, that
  exception is the result of the function, after exactly one call.
\<close>

theorem failed_invocation_reports_unhealthy:
  "(route_request (intelligent_router client) now
          (chat_routing_request request tenant feat override) = Inr (resp, router1)
    \<and> selected_model resp = sel \<and> sel \<noteq> []
    \<and> chat_completion client now t0 t1 backend request tenant feat override
        = (Inl e, client', calls) \<longrightarrow>
      map_option health_status (get_model (model_registry (intelligent_router client')) sel)
        = map_option (\<lambda>_. ''unhealthy'') (get_model (model_registry (intelligent_router client)) sel)
      \<and> map_option error_count (get_model (model_registry (intelligent_router client')) sel)
        = map_option (\<lambda>_. 1) (get_model (model_registry (intelligent_router client)) sel)
      \<and> map_option last_health_check (get_model (model_registry (intelligent_router client')) sel)
        = map_option (\<lambda>_. Some now) (get_model (model_registry (intelligent_router client)) sel)
      \<and> (other \<noteq> sel \<longrightarrow>
           get_model (model_registry (intelligent_router client')) other
           = get_model (model_registry (intelligent_router client)) other)
      \<and> (calls = [] \<or> calls = [sel]))
   \<and> (route_request (intelligent_router client) now
          (embedding_routing_request erequest tenant feat override) = Inr (resp, router1)
    \<and> selected_model resp = sel \<and> sel \<noteq> []
    \<and> create_embedding client now t0 t1 ebackend erequest tenant feat override
        = (Inl e, client', calls) \<longrightarrow>
      map_option health_status (get_model (model_registry (intelligent_router client')) sel)
        = map_option (\<lambda>_. ''unhealthy'') (get_model (model_registry (intelligent_router client)) sel)
      \<and> map_option error_count (get_model (model_registry (intelligent_router client')) sel)
        = map_option (\<lambda>_. 1) (get_model (model_registry (intelligent_router client)) sel)
      \<and> map_option last_health_check (get_model (model_registry (intelligent_router client')) sel)
        = map_option (\<lambda>_. Some now) (get_model (model_registry (intelligent_router client)) sel)
      \<and> (other \<noteq> sel \<longrightarrow>
           get_model (model_registry (intelligent_router client')) other
           = get_model (model_registry (intelligent_router client)) other)
      \<and> (calls = [] \<or> calls = [sel]))
   \<and> (route_request (intelligent_router client) now
          (chat_routing_request request tenant feat override) = Inr (resp, router1)
    \<and> selected_model resp = sel \<and> sel \<noteq> []
    \<and> sel \<in> clients client \<and> backend sel request = Inl e \<longrightarrow>
      chat_completion client now t0 t1 backend request tenant feat override
        = (Inl e, report_failure (client\<lparr>intelligent_router := router1\<rparr>) now sel, [sel]))
   \<and> (route_request (intelligent_router client) now
          (embedding_routing_request erequest tenant feat override) = Inr (resp, router1)
    \<and> selected_model resp = sel \<and> sel \<noteq> []
    \<and> sel \<in> clients client \<and> ebackend sel erequest = Inl e \<longrightarrow>
      create_embedding client now t0 t1 ebackend erequest tenant feat override
        = (Inl e, report_failure (client\<lparr>intelligent_router := router1\<rparr>) now sel, [sel]))"
proof -
  have 1: "route_request (intelligent_router client) now
          (chat_routing_request request tenant feat override) = Inr (resp, router1)
    \<and> selected_model resp = sel \<and> sel \<noteq> []
    \<and> chat_completion client now t0 t1 backend request tenant feat override
        = (Inl e, client', calls) \<longrightarrow>
      map_option health_status (get_model (model_registry (intelligent_router client')) sel)
        = map_option (\<lambda>_. ''unhealthy'') (get_model (model_registry (intelligent_router client)) sel)
      \<and> map_option error_count (get_model (model_registry (intelligent_router client')) sel)
        = map_option (\<lambda>_. 1) (get_model (model_registry (intelligent_router client)) sel)
      \<and> map_option last_health_check (get_model (model_registry (intelligent_router client')) sel)
        = map_option (\<lambda>_. Some now) (get_model (model_registry (intelligent_router client)) sel)
      \<and> (other \<noteq> sel \<longrightarrow>
           get_model (model_registry (intelligent_router client')) other
           = get_model (model_registry (intelligent_router client)) other)
      \<and> (calls = [] \<or> calls = [sel])"
  proof (intro impI)
    assume a: "route_request (intelligent_router client) now
          (chat_routing_request request tenant feat override) = Inr (resp, router1)
    \<and> selected_model resp = sel \<and> sel \<noteq> []
    \<and> chat_completion client now t0 t1 backend request tenant feat override
        = (Inl e, client', calls)"
    then obtain reg0 where r: "model_registry (intelligent_router client')
                 = update_model_health now reg0 sel ''unhealthy'' 1"
       "reg0 = model_registry (intelligent_router client)
                \<or> reg0 = record_usage (model_registry (intelligent_router client)) sel 1 0"
      using chat_completion_failure(1) [of client now request tenant feat override resp router1 sel t0 t1 backend
          e client' calls] by blast
    have c: "calls = [] \<or> calls = [sel]"
      using a chat_completion_failure(2) [of client now request tenant feat override resp router1 sel t0 t1 backend
          e client' calls] by blast
    have o: "other \<noteq> sel \<longrightarrow>
           get_model (model_registry (intelligent_router client')) other
           = get_model (model_registry (intelligent_router client)) other"
      using failure_registry_fields(4) [OF r] by blast
    from failure_registry_fields(1-3) [OF r] o c
    show "map_option health_status (get_model (model_registry (intelligent_router client')) sel)
        = map_option (\<lambda>_. ''unhealthy'') (get_model (model_registry (intelligent_router client)) sel)
      \<and> map_option error_count (get_model (model_registry (intelligent_router client')) sel)
        = map_option (\<lambda>_. 1) (get_model (model_registry (intelligent_router client)) sel)
      \<and> map_option last_health_check (get_model (model_registry (intelligent_router client')) sel)
        = map_option (\<lambda>_. Some now) (get_model (model_registry (intelligent_router client)) sel)
      \<and> (other \<noteq> sel \<longrightarrow>
           get_model (model_registry (intelligent_router client')) other
           = get_model (model_registry (intelligent_router client)) other)
      \<and> (calls = [] \<or> calls = [sel])"
      by (intro conjI)
  qed
  have 2: "route_request (intelligent_router client) now
          (embedding_routing_request erequest tenant feat override) = Inr (resp, router1)
    \<and> selected_model resp = sel \<and> sel \<noteq> []
    \<and> create_embedding client now t0 t1 ebackend erequest tenant feat override
        = (Inl e, client', calls) \<longrightarrow>
      map_option health_status (get_model (model_registry (intelligent_router client')) sel)
        = map_option (\<lambda>_. ''unhealthy'') (get_model (model_registry (intelligent_router client)) sel)
      \<and> map_option error_count (get_model (model_registry (intelligent_router client')) sel)
        = map_option (\<lambda>_. 1) (get_model (model_registry (intelligent_router client)) sel)
      \<and> map_option last_health_check (get_model (model_registry (intelligent_router client')) sel)
        = map_option (\<lambda>_. Some now) (get_model (model_registry (intelligent_router client)) sel)
      \<and> (other \<noteq> sel \<longrightarrow>
           get_model (model_registry (intelligent_router client')) other
           = get_model (model_registry (intelligent_router client)) other)
      \<and> (calls = [] \<or> calls = [sel])"
  proof (intro impI)
    assume a: "route_request (intelligent_router client) now
          (embedding_routing_request erequest tenant feat override) = Inr (resp, router1)
    \<and> selected_model resp = sel \<and> sel \<noteq> []
    \<and> create_embedding client now t0 t1 ebackend erequest tenant feat override
        = (Inl e, client', calls)"
    then obtain reg0 where r: "model_registry (intelligent_router client')
                 = update_model_health now reg0 sel ''unhealthy'' 1"
       "reg0 = model_registry (intelligent_router client)
                \<or> reg0 = record_usage (model_registry (intelligent_router client)) sel 1 0"
      using create_embedding_failure(1) [of client now erequest tenant feat override resp router1 sel t0 t1 ebackend
          e client' calls] by blast
    have c: "calls = [] \<or> calls = [sel]"
      using a create_embedding_failure(2) [of client now erequest tenant feat override resp router1 sel t0 t1 ebackend
          e client' calls] by blast
    have o: "other \<noteq> sel \<longrightarrow>
           get_model (model_registry (intelligent_router client')) other
           = get_model (model_registry (intelligent_router client)) other"
      using failure_registry_fields(4) [OF r] by blast
    from failure_registry_fields(1-3) [OF r] o c
    show "map_option health_status (get_model (model_registry (intelligent_router client')) sel)
        = map_option (\<lambda>_. ''unhealthy'') (get_model (model_registry (intelligent_router client)) sel)
      \<and> map_option error_count (get_model (model_registry (intelligent_router client')) sel)
        = map_option (\<lambda>_. 1) (get_model (model_registry (intelligent_router client)) sel)
      \<and> map_option last_health_check (get_model (model_registry (intelligent_router client')) sel)
        = map_option (\<lambda>_. Some now) (get_model (model_registry (intelligent_router client)) sel)
      \<and> (other \<noteq> sel \<longrightarrow>
           get_model (model_registry (intelligent_router client')) other
           = get_model (model_registry (intelligent_router client)) other)
      \<and> (calls = [] \<or> calls = [sel])"
      by (intro conjI)
  qed
  have 3: "route_request (intelligent_router client) now
          (chat_routing_request request tenant feat override) = Inr (resp, router1)
    \<and> selected_model resp = sel \<and> sel \<noteq> []
    \<and> sel \<in> clients client \<and> backend sel request = Inl e \<longrightarrow>
      chat_completion client now t0 t1 backend request tenant feat override
        = (Inl e, report_failure (client\<lparr>intelligent_router := router1\<rparr>) now sel, [sel])"
    using chat_completion_backend_failure [of client now request tenant feat override resp router1 sel backend e t0 t1]
    by blast
  have 4: "route_request (intelligent_router client) now
          (embedding_routing_request erequest tenant feat override) = Inr (resp, router1)
    \<and> selected_model resp = sel \<and> sel \<noteq> []
    \<and> sel \<in> clients client \<and> ebackend sel erequest = Inl e \<longrightarrow>
      create_embedding client now t0 t1 ebackend erequest tenant feat override
        = (Inl e, report_failure (client\<lparr>intelligent_router := router1\<rparr>) now sel, [sel])"
    using create_embedding_backend_failure [of client now erequest tenant feat override resp router1 sel ebackend e t0 t1]
    by blast
  from 1 2 3 4 show ?thesis
    by (intro conjI)
qed

theorem failed_invocation_reports_unhealthy_witness:
  "route_request (intelligent_router example_client) example_now
     (chat_routing_request example_chat_request ''acme'' ''qa'' None)
     = Inr (\<lparr>selected_model = ''gpt-35-turbo'',
             routing_reason = ''Budget constraint - using cost-optimized model'',
             fallback_used = True, budget_impact = 1511 / 100000, estimated_latency = ''high'',
             confidence_score = 7 / 10\<rparr>,
            update_usage_tracking example_router example_now ''acme'' ''gpt-35-turbo'')
   \<and> ''gpt-35-turbo'' \<in> clients example_client
   \<and> example_failing_backend ''gpt-35-turbo'' example_chat_request = Inl (ApiError ''timeout'')
   \<and> chat_completion example_client example_now 0 1 example_failing_backend
         example_chat_request ''acme'' ''qa'' None
       = (Inl (ApiError ''timeout''),
          report_failure
            (example_client\<lparr>intelligent_router :=
               update_usage_tracking example_router example_now ''acme'' ''gpt-35-turbo''\<rparr>)
            example_now ''gpt-35-turbo'',
          [''gpt-35-turbo''])
   \<and> map_option error_count
         (get_model (model_registry (intelligent_router example_client)) ''gpt-35-turbo'') = Some 0
   \<and> map_option error_count
         (get_model (model_registry (intelligent_router
            (report_failure
               (example_client\<lparr>intelligent_router :=
                  update_usage_tracking example_router example_now ''acme'' ''gpt-35-turbo''\<rparr>)
               example_now ''gpt-35-turbo''))) ''gpt-35-turbo'') = Some 1
   \<and> map_option health_status
         (get_model (model_registry (intelligent_router
            (report_failure
               (example_client\<lparr>intelligent_router :=
                  update_usage_tracking example_router example_now ''acme'' ''gpt-35-turbo''\<rparr>)
               example_now ''gpt-35-turbo''))) ''gpt-35-turbo'') = Some ''unhealthy''"
proof -
  have rr: "route_request (intelligent_router example_client) example_now
     (chat_routing_request example_chat_request ''acme'' ''qa'' None)
     = Inr (\<lparr>selected_model = ''gpt-35-turbo'',
             routing_reason = ''Budget constraint - using cost-optimized model'',
             fallback_used = True, budget_impact = 1511 / 100000, estimated_latency = ''high'',
             confidence_score = 7 / 10\<rparr>,
            update_usage_tracking example_router example_now ''acme'' ''gpt-35-turbo'')"
    by (simp add: example_chat_routing_request example_client_def route_defs example_defs)
  have s: "selected_model \<lparr>selected_model = ''gpt-35-turbo'',
             routing_reason = ''Budget constraint - using cost-optimized model'',
             fallback_used = True, budget_impact = 1511 / 100000, estimated_latency = ''high'',
             confidence_score = 7 / 10\<rparr> = ''gpt-35-turbo''"
    and n: "''gpt-35-turbo'' \<noteq> []"
    by simp_all
  have c: "''gpt-35-turbo'' \<in> clients example_client"
    by (simp add: example_client_def)
  have b: "example_failing_backend ''gpt-35-turbo'' example_chat_request = Inl (ApiError ''timeout'')"
    by (simp add: example_failing_backend_def)
  have g: "map_option error_count
         (get_model (model_registry (intelligent_router example_client)) ''gpt-35-turbo'') = Some 0"
    and g': "map_option (\<lambda>_. 1::int)
         (get_model (model_registry (intelligent_router example_client)) ''gpt-35-turbo'') = Some 1"
    and g'': "map_option (\<lambda>_. ''unhealthy'')
         (get_model (model_registry (intelligent_router example_client)) ''gpt-35-turbo'')
           = Some ''unhealthy''"
    by (simp_all add: get_model_def example_client_def example_router_def example_registry_def
        example_model_def)
  note T = failed_invocation_reports_unhealthy
    [of example_client example_now example_chat_request "''acme''" "''qa''" None
      "\<lparr>selected_model = ''gpt-35-turbo'',
             routing_reason = ''Budget constraint - using cost-optimized model'',
             fallback_used = True, budget_impact = 1511 / 100000, estimated_latency = ''high'',
             confidence_score = 7 / 10\<rparr>"
      "update_usage_tracking example_router example_now ''acme'' ''gpt-35-turbo''"
      "''gpt-35-turbo''" 0 1 example_failing_backend "ApiError ''timeout''"
      "report_failure
            (example_client\<lparr>intelligent_router :=
               update_usage_tracking example_router example_now ''acme'' ''gpt-35-turbo''\<rparr>)
            example_now ''gpt-35-turbo''"
      "[''gpt-35-turbo'']"]
  have cc: "chat_completion example_client example_now 0 1 example_failing_backend
         example_chat_request ''acme'' ''qa'' None
       = (Inl (ApiError ''timeout''),
          report_failure
            (example_client\<lparr>intelligent_router :=
               update_usage_tracking example_router example_now ''acme'' ''gpt-35-turbo''\<rparr>)
            example_now ''gpt-35-turbo'',
          [''gpt-35-turbo''])"
    using T rr s n c b by blast
  have e: "map_option error_count
         (get_model (model_registry (intelligent_router
            (report_failure
               (example_client\<lparr>intelligent_router :=
                  update_usage_tracking example_router example_now ''acme'' ''gpt-35-turbo''\<rparr>)
               example_now ''gpt-35-turbo''))) ''gpt-35-turbo'')
       = map_option (\<lambda>_. 1)
         (get_model (model_registry (intelligent_router example_client)) ''gpt-35-turbo'')"
    and h: "map_option health_status
         (get_model (model_registry (intelligent_router
            (report_failure
               (example_client\<lparr>intelligent_router :=
                  update_usage_tracking example_router example_now ''acme'' ''gpt-35-turbo''\<rparr>)
               example_now ''gpt-35-turbo''))) ''gpt-35-turbo'')
       = map_option (\<lambda>_. ''unhealthy'')
         (get_model (model_registry (intelligent_router example_client)) ''gpt-35-turbo'')"
    using T rr s n cc by blast+
  from rr c b cc g e h show ?thesis
    by (simp only: g' g'' simp_thms)
qed

end
